theory Spec2Isabelle
  imports Complex_Main
begin

section \<open>Test grouping\<close>

subsection \<open>JavaScript numbers and arrays\<close>

text \<open>
  \<^verbatim>\<open>countRunners: Number(getInput("count-runners"))\<close> is a JavaScript number: a finite
  double, \<^verbatim>\<open>NaN\<close> or one of the two infinities. Every finite double is a rational, so
  the finite values are embedded in \<^typ>\<open>rat\<close>. Quotients are taken exactly; the rounding
  of the double quotient and the sign of a zero are not represented. For an integer count the
  exact quotient and the double quotient of an array length have the same ceiling and floor,
  and on the path where a division is reached the count is positive, so every zero that
  arises there is the positive one. For a count that is not an integer the two quotients
  can differ (\<^verbatim>\<open>6 / 1.2\<close> is \<open>5\<close> as a double and more than \<open>5\<close> as a rational), so
  below such a count is used only where the double quotient is exact, as in \<^verbatim>\<open>3 / 1.5\<close>.
\<close>

datatype number = NaN | PosInfinity | NegInfinity | Finite rat

fun isNaN :: "number \<Rightarrow> bool" where
  "isNaN NaN = True"
| "isNaN _ = False"

text \<open>\<^verbatim>\<open>groupCount <= 0\<close>: every comparison with \<^verbatim>\<open>NaN\<close> is false.\<close>

fun le_zero :: "number \<Rightarrow> bool" where
  "le_zero NaN = False"
| "le_zero PosInfinity = False"
| "le_zero NegInfinity = True"
| "le_zero (Finite q) = (q \<le> 0)"

text \<open>
  \<^verbatim>\<open>n / d\<close> for a numerator that is an array length or an array index (a natural number):
  a finite numerator over an infinity is zero, \<^verbatim>\<open>0 / 0\<close> is \<^verbatim>\<open>NaN\<close>, and a positive
  numerator over zero is \<^verbatim>\<open>Infinity\<close>.
\<close>

fun divide_by :: "nat \<Rightarrow> number \<Rightarrow> number" where
  "divide_by n NaN = NaN"
| "divide_by n PosInfinity = Finite 0"
| "divide_by n NegInfinity = Finite 0"
| "divide_by n (Finite q) =
     (if q = 0 then (if n = 0 then NaN else PosInfinity) else Finite (of_nat n / q))"

fun Math_ceil :: "number \<Rightarrow> number" where
  "Math_ceil (Finite q) = Finite (of_int \<lceil>q\<rceil>)"
| "Math_ceil x = x"

fun Math_floor :: "number \<Rightarrow> number" where
  "Math_floor (Finite q) = Finite (of_int \<lfloor>q\<rfloor>)"
| "Math_floor x = x"

text \<open>
  \<^verbatim>\<open>groups[chunkIndex]\<close>: a number that is a non-negative integer addresses an element of
  the array; any other number (\<^verbatim>\<open>NaN\<close>, \<^verbatim>\<open>Infinity\<close>) names an ordinary property of the
  array object, which neither \<^verbatim>\<open>length\<close> nor \<^verbatim>\<open>map\<close> sees.
\<close>

datatype property_key = Index nat | Named number

fun to_key :: "number \<Rightarrow> property_key" where
  "to_key (Finite q) =
     (if 0 \<le> q \<and> q = of_int \<lfloor>q\<rfloor> then Index (nat \<lfloor>q\<rfloor>) else Named (Finite q))"
| "to_key x = Named x"

text \<open>
  A JavaScript array may have holes: \<open>None\<close> is a hole, which reads as \<^verbatim>\<open>undefined\<close>.
  Reading past the end gives \<^verbatim>\<open>undefined\<close> too, and writing past the end extends the array,
  leaving holes in between.
\<close>

type_synonym 'a js_array = "'a option list"

definition get_index :: "'a js_array \<Rightarrow> nat \<Rightarrow> 'a option" where
  "get_index arr i = (if i < length arr then arr ! i else None)"

definition set_index :: "'a js_array \<Rightarrow> nat \<Rightarrow> 'a \<Rightarrow> 'a js_array" where
  "set_index arr i v =
     (if i < length arr then arr[i := Some v]
      else arr @ replicate (i - length arr) None @ [Some v])"

text \<open>\<^verbatim>\<open>Array.prototype.join\<close> on an array of strings.\<close>

fun join :: "string \<Rightarrow> string list \<Rightarrow> string" where
  "join sep [] = []"
| "join sep [x] = x"
| "join sep (x # y # ys) = x @ sep @ join sep (y # ys)"

subsection \<open>createTestGroups\<close>

text \<open>
  The callback of \<^verbatim>\<open>tests.reduce\<close>:
  \<^verbatim>\<open>
    const chunkIndex = Math.floor(index / testCountByChunk)
    if (!groups[chunkIndex]) { groups[chunkIndex] = [] }
    groups[chunkIndex].push(item)
    return groups
  \<close>
  An array, even an empty one, is truthy, so \<^verbatim>\<open>!groups[chunkIndex]\<close> holds exactly when the
  element is missing. Under a key that is not an index the group is stored as a property of
  the array object and the elements stay as they are.
\<close>

definition add_to_group ::
  "number \<Rightarrow> nat \<Rightarrow> string \<Rightarrow> string list js_array \<Rightarrow> string list js_array" where
  "add_to_group testCountByChunk index item groups =
     (case to_key (Math_floor (divide_by index testCountByChunk)) of
        Named _ \<Rightarrow> groups
      | Index chunkIndex \<Rightarrow>
          (let groups' = (case get_index groups chunkIndex of
                            None \<Rightarrow> set_index groups chunkIndex []
                          | Some _ \<Rightarrow> groups)
           in case get_index groups' chunkIndex of
                None \<Rightarrow> groups'
              | Some g \<Rightarrow> set_index groups' chunkIndex (g @ [item])))"

text \<open>\<^verbatim>\<open>tests.reduce(callback, [])\<close>, from the index of the next item onwards.\<close>

fun reduce_groups ::
  "number \<Rightarrow> nat \<Rightarrow> string list \<Rightarrow> string list js_array \<Rightarrow> string list js_array" where
  "reduce_groups c index [] groups = groups"
| "reduce_groups c index (item # rest) groups =
     reduce_groups c (Suc index) rest (add_to_group c index item groups)"

text \<open>
  \<^verbatim>\<open>
  function createTestGroups(groupCount: number, tests: string[]): string[] {
    if ((isNaN(groupCount)) || groupCount <= 0) { return tests; }
    const testCountByChunk = Math.ceil(tests.length / groupCount);
    return tests.reduce(..., []).map((group) => group.join(","))
  }
  \<close>
  \<^verbatim>\<open>tests\<close> is a dense array, given as a list; the result is an array, in which
  \<^verbatim>\<open>map\<close> keeps a hole as a hole.
\<close>

definition createTestGroups :: "number \<Rightarrow> string list \<Rightarrow> string js_array" where
  "createTestGroups groupCount tests =
     (if isNaN groupCount \<or> le_zero groupCount then map Some tests
      else let testCountByChunk = Math_ceil (divide_by (length tests) groupCount)
           in map (map_option (join '',''))
                  (reduce_groups testCountByChunk 0 tests []))"

text \<open>
  The partition the specification describes, for comparison with the loop above: cut the
  list into consecutive pieces of \<open>k\<close> entries until nothing is left.
\<close>

function chunks :: "nat \<Rightarrow> 'a list \<Rightarrow> 'a list list" where
  "chunks k xs = (if k = 0 \<or> xs = [] then [] else take k xs # chunks k (drop k xs))"
  by pat_completeness auto
termination
  by (relation "measure (\<lambda>(k, xs). length xs)") auto

section \<open>Discovery of the configuration and of the test files\<close>

subsection \<open>The world around the program\<close>

text \<open>
  A thrown value. \<open>Exn name message\<close> is an \<^verbatim>\<open>Error\<close> object with the name of its
  class and its message; \<open>Thrown s\<close> is any other value, whose conversion to a string is
  \<open>s\<close>. A template literal \<^verbatim>\<open>`${e}`\<close> converts \<open>e\<close> to a string; for an
  \<^verbatim>\<open>Error\<close> that is \<^verbatim>\<open>Error.prototype.toString\<close>: the message alone when the name
  is empty, the name alone when the message is empty, and \<^verbatim>\<open>name: message\<close> otherwise.
\<close>

datatype exn = Exn string string | Thrown string

fun exn_toString :: "exn \<Rightarrow> string" where
  "exn_toString (Exn name msg) =
     (if name = [] then msg else if msg = [] then name else name @ '': '' @ msg)"
| "exn_toString (Thrown s) = s"

text \<open>
  What a path of the file system leads to. A directory lists its entries by name, in the
  order in which \<^verbatim>\<open>readdirSync\<close> returns them; \<open>Unreadable e\<close> is a directory on which
  \<^verbatim>\<open>readdirSync\<close> raises \<open>e\<close>; \<open>Other\<close> is an entry for which both
  \<^verbatim>\<open>isDirectory()\<close> and \<^verbatim>\<open>isFile()\<close> are false (a symbolic link, a socket, a device).
\<close>

datatype node = File | Directory "(string \<times> node) list" | Unreadable exn | Other

text \<open>\<^verbatim>\<open>string | string[]\<close>\<close>

datatype SpecPattern = Single string | Several "string list"

text \<open>
  The content of \<^verbatim>\<open>cypress.json\<close> as \<^verbatim>\<open>JSON.parse\<close> returns it, at the type the parser
  reads it: each key may be missing.
\<close>

record cypress9_json =
  json_componentFolder :: "string option"
  json_ignoreTestFiles :: "SpecPattern option"
  json_integrationFolder :: "string option"
  json_testFiles :: "SpecPattern option"

text \<open>
  What a \<^verbatim>\<open>cypress.config.*\<close> script exports: the configuration itself, or an object
  that holds it under the key \<^verbatim>\<open>default\<close>. The sections \<^verbatim>\<open>e2e\<close> and \<^verbatim>\<open>component\<close>
  and their keys may be missing.
\<close>

record section_options =
  opt_specPattern :: "SpecPattern option"
  opt_excludeSpecPattern :: "SpecPattern option"

record config_options =
  opt_e2e :: "section_options option"
  opt_component :: "section_options option"

datatype module_exports = DefaultExport config_options | Exports config_options

text \<open>
  The functions of Node, of \<^verbatim>\<open>minimatch\<close> and of the TypeScript compiler that the program
  calls, and the state of the file system during the run. \<open>minimatch env f p\<close> stands
  for \<^verbatim>\<open>minimatch(f, p, {dot: true, matchBase: true})\<close>. \<open>require env p\<close> is the outcome
  of loading the script at \<open>p\<close> when the program asks for it. The file that the typed-script
  parser writes lies in a fresh directory below the directory for temporary files, outside
  the tree that is searched for tests.
\<close>

record env =
  process_cwd :: string
  node_at :: "string \<Rightarrow> node option"
  path_join :: "string \<Rightarrow> string \<Rightarrow> string"
  path_relative :: "string \<Rightarrow> string \<Rightarrow> string"
  path_resolve :: "string \<Rightarrow> string"
  minimatch :: "string \<Rightarrow> string \<Rightarrow> bool"
  readFileSync :: "string \<Rightarrow> exn + string"
  JSON_parse :: "string \<Rightarrow> exn + cypress9_json"
  require :: "string \<Rightarrow> exn + module_exports"
  mkdtempSync :: "exn + string"
  ts_transpileModule :: "string \<Rightarrow> string \<times> string list"
  writeFileSync :: "string \<Rightarrow> string \<Rightarrow> exn option"

text \<open>
  A call of \<^verbatim>\<open>error(...)\<close> of \<^verbatim>\<open>@actions/core\<close> is recorded: a function that may log
  returns its result together with the messages it logged, in order. The result is \<open>Inl e\<close>
  when the function raises \<open>e\<close>. Messages of the levels debug, info and notice are left out.
\<close>

type_synonym 'a logged = "'a \<times> string list"

definition and_then :: "(exn + 'a) logged \<Rightarrow> ('a \<Rightarrow> (exn + 'b) logged) \<Rightarrow> (exn + 'b) logged" where
  "and_then m f = (case m of
                 (Inl e, l) \<Rightarrow> (Inl e, l)
               | (Inr a, l) \<Rightarrow> (case f a of (r, l') \<Rightarrow> (r, l @ l')))"

text \<open>Truthiness of a value of type \<^verbatim>\<open>string | null\<close> or \<^verbatim>\<open>string | undefined\<close>.\<close>

fun truthy :: "string option \<Rightarrow> bool" where
  "truthy None = False"
| "truthy (Some s) = (s \<noteq> [])"

subsection \<open>cypressBaseConfigParser.ts\<close>

datatype parser_kind = CypressTSConfigParser | CypressJSConfigParser | Cypress9ConfigParser

fun VALID_CONFIG_FILE_NAMES :: "parser_kind \<Rightarrow> string list" where
  "VALID_CONFIG_FILE_NAMES CypressTSConfigParser = [''cypress.config.ts'']"
| "VALID_CONFIG_FILE_NAMES CypressJSConfigParser =
     [''cypress.config.js'', ''cypress.config.mjs'', ''cypress.config.cjs'']"
| "VALID_CONFIG_FILE_NAMES Cypress9ConfigParser = [''cypress.json'']"

record Config =
  config_workingDirectory :: string
  countRunners :: number

record TestFiles =
  integrationTests :: "string list"
  componentTests :: "string list option"

text \<open>\<^verbatim>\<open>return workingDirectory ? workingDirectory : process.cwd();\<close>\<close>

definition getWorkingDirectory :: "env \<Rightarrow> string \<Rightarrow> string" where
  "getWorkingDirectory env workingDirectory =
     (if workingDirectory \<noteq> [] then workingDirectory else process_cwd env)"

text \<open>An instance of a parser class: its class and \<^verbatim>\<open>this.workingDirectory\<close>.\<close>

record parser =
  kind :: parser_kind
  this_workingDirectory :: string

definition new_parser :: "env \<Rightarrow> parser_kind \<Rightarrow> Config \<Rightarrow> parser" where
  "new_parser env k config =
     \<lparr>kind = k, this_workingDirectory = getWorkingDirectory env (config_workingDirectory config)\<rparr>"

text \<open>
  The local function \<^verbatim>\<open>listFiles(dir)\<close> of \<^verbatim>\<open>glob\<close>, on the node that \<open>dir\<close> leads
  to: \<^verbatim>\<open>readdirSync\<close> raises on anything but a readable directory; a directory entry is
  descended into, a file entry is added relative to the root, any other entry is skipped.
\<close>

fun listFiles :: "env \<Rightarrow> string \<Rightarrow> string \<Rightarrow> node \<Rightarrow> exn + string list"
  and listEntries :: "env \<Rightarrow> string \<Rightarrow> string \<Rightarrow> (string \<times> node) list \<Rightarrow> exn + string list" where
  "listFiles env rootDir dir (Directory entries) = listEntries env rootDir dir entries"
| "listFiles env rootDir dir (Unreadable e) = Inl e"
| "listFiles env rootDir dir File =
     Inl (Exn ''Error'' (''ENOTDIR: not a directory, scandir '' @ [CHR 0x27] @ dir @ [CHR 0x27]))"
| "listFiles env rootDir dir Other =
     Inl (Exn ''Error'' (''ENOTDIR: not a directory, scandir '' @ [CHR 0x27] @ dir @ [CHR 0x27]))"
| "listEntries env rootDir dir [] = Inr []"
| "listEntries env rootDir dir ((name, entry) # rest) =
     (let entryPath = path_join env dir name in
      case entry of
        File \<Rightarrow> (case listEntries env rootDir dir rest of
                   Inl e \<Rightarrow> Inl e
                 | Inr files \<Rightarrow> Inr (path_relative env rootDir entryPath # files))
      | Other \<Rightarrow> listEntries env rootDir dir rest
      | _ \<Rightarrow> (case listFiles env rootDir entryPath entry of
                Inl e \<Rightarrow> Inl e
              | Inr found \<Rightarrow> (case listEntries env rootDir dir rest of
                               Inl e \<Rightarrow> Inl e
                             | Inr files \<Rightarrow> Inr (found @ files))))"

text \<open>
  \<^verbatim>\<open>
  private static glob(root: string, pattern: string[], ignorePattern: string[] = []): string[] {
    if (!fs.existsSync(root)) { return []; }
    let files = listFiles(root);
    files = files.filter(f => pattern.some(p => minimatch(f, p,{dot: true, matchBase: true})))
    for (const p of ignorePattern) {
      files = files.filter(minimatch.filter(`!${p}`, {dot: true, matchBase: true}));
    }
    return files;
  }
  \<close>
\<close>

definition glob :: "env \<Rightarrow> string \<Rightarrow> string list \<Rightarrow> string list \<Rightarrow> exn + string list" where
  "glob env rootDir pattern ignorePattern =
     (case node_at env rootDir of
        None \<Rightarrow> Inr []
      | Some n \<Rightarrow>
          (case listFiles env rootDir rootDir n of
             Inl e \<Rightarrow> Inl e
           | Inr files \<Rightarrow>
               Inr (fold (\<lambda>p fs. filter (\<lambda>f. minimatch env f (CHR ''!'' # p)) fs) ignorePattern
                      (filter (\<lambda>f. list_ex (\<lambda>p. minimatch env f p) pattern) files))))"

text \<open>
  \<^verbatim>\<open>
  public static getConfigFile(workingDirectory: string): string | null {
    const cwd = this.getWorkingDirectory(workingDirectory);
    const results = this.glob(cwd, this.VALID_CONFIG_FILE_NAMES);
    if (results.length == 0) { return null; }
    if (results.length > 1) { error("Multiple Cypress config files found."); return null; }
    return path.join(workingDirectory, results[0]);
  }
  \<close>
  The static member \<^verbatim>\<open>this.VALID_CONFIG_FILE_NAMES\<close> of the class the method is called on
  is the argument \<open>names\<close>.
\<close>

definition getConfigFile :: "env \<Rightarrow> string list \<Rightarrow> string \<Rightarrow> (exn + string option) logged" where
  "getConfigFile env names workingDirectory =
     (let cwd = getWorkingDirectory env workingDirectory in
      case glob env cwd names [] of
        Inl e \<Rightarrow> (Inl e, [])
      | Inr results \<Rightarrow>
          if length results = 0 then (Inr None, [])
          else if length results > 1 then (Inr None, [''Multiple Cypress config files found.''])
          else (Inr (Some (path_join env workingDirectory (results ! 0))), []))"

text \<open>\<^verbatim>\<open>return !!configFilePath;\<close>\<close>

definition hasConfigFile :: "env \<Rightarrow> string list \<Rightarrow> string \<Rightarrow> (exn + bool) logged" where
  "hasConfigFile env names workingDirectory =
     and_then (getConfigFile env names workingDirectory) (\<lambda>configFilePath.
       (Inr (truthy configFilePath), []))"

text \<open>
  The search specification of one category of tests: what \<^verbatim>\<open>parseTestOfType\<close> makes of
  its arguments before it calls \<^verbatim>\<open>glob\<close>. A single pattern becomes a list of one; a
  missing or empty exclude pattern leaves \<^verbatim>\<open>ignoreFilePatterns\<close> undefined, for which
  \<^verbatim>\<open>glob\<close> takes its default, the empty list.
\<close>

record DiscoveryRule =
  rootFolder :: string
  includePatterns :: "string list"
  excludePatterns :: "string list"

definition discoveryRule :: "string \<Rightarrow> SpecPattern \<Rightarrow> SpecPattern option \<Rightarrow> DiscoveryRule" where
  "discoveryRule testFolder specPattern excludeSpecPattern =
     \<lparr>rootFolder = testFolder,
      includePatterns = (case specPattern of Several ps \<Rightarrow> ps | Single p \<Rightarrow> [p]),
      excludePatterns = (case excludeSpecPattern of
                           None \<Rightarrow> []
                         | Some (Single p) \<Rightarrow> (if p \<noteq> [] then [p] else [])
                         | Some (Several ps) \<Rightarrow> ps)\<rparr>"

text \<open>
  \<^verbatim>\<open>
    const files = CypressBaseConfigParser.glob(
      path.join(this.workingDirectory, testFolder), filePatterns, ignoreFilePatterns);
    return files.map(f => path.join(testFolder, f));
  \<close>
\<close>

definition globRule :: "env \<Rightarrow> string \<Rightarrow> DiscoveryRule \<Rightarrow> exn + string list" where
  "globRule env wd rule =
     (case glob env (path_join env wd (rootFolder rule))
             (includePatterns rule) (excludePatterns rule) of
        Inl e \<Rightarrow> Inl e
      | Inr files \<Rightarrow> Inr (map (\<lambda>f. path_join env (rootFolder rule) f) files))"

definition parseTestOfType ::
  "env \<Rightarrow> string \<Rightarrow> string \<Rightarrow> SpecPattern \<Rightarrow> SpecPattern option \<Rightarrow> exn + string list" where
  "parseTestOfType env wd testFolder specPattern excludeSpecPattern =
     globRule env wd (discoveryRule testFolder specPattern excludeSpecPattern)"

text \<open>
  The handler of \<^verbatim>\<open>parseTests\<close>, the same in both classes:
  \<^verbatim>\<open>
    } catch (e) {
      error(`Failed to parse cypress tests: ${e}`);
      return {integrationTests: [], componentTests: []};
    }
  \<close>
\<close>

definition caught :: "exn \<Rightarrow> string list \<Rightarrow> TestFiles logged" where
  "caught e l =
     (\<lparr>integrationTests = [], componentTests = Some []\<rparr>,
      l @ [''Failed to parse cypress tests: '' @ exn_toString e])"

subsection \<open>cypress9ConfigParser.ts\<close>

record Cypress9Config =
  componentFolder :: "string option"
  ignoreTestFiles :: "SpecPattern option"
  integrationFolder :: string
  testFiles :: SpecPattern

definition DEFAULT_INTEGRATION_FOLDER :: string where
  "DEFAULT_INTEGRATION_FOLDER = ''cypress/integration''"

definition DEFAULT_TEST_FILES :: string where
  "DEFAULT_TEST_FILES = ''**/*.*''"

text \<open>
  \<^verbatim>\<open>
    return {
      integrationFolder: Cypress9ConfigParser.DEFAULT_INTEGRATION_FOLDER,
      testFiles: Cypress9ConfigParser.DEFAULT_TEST_FILES,
      ...config,
    };
  \<close>
\<close>

definition withDefaults :: "cypress9_json \<Rightarrow> Cypress9Config" where
  "withDefaults config =
     \<lparr>componentFolder = json_componentFolder config,
      ignoreTestFiles = json_ignoreTestFiles config,
      integrationFolder = (case json_integrationFolder config of
                             None \<Rightarrow> DEFAULT_INTEGRATION_FOLDER | Some d \<Rightarrow> d),
      testFiles = (case json_testFiles config of
                     None \<Rightarrow> Single DEFAULT_TEST_FILES | Some t \<Rightarrow> t)\<rparr>"

text \<open>
  \<^verbatim>\<open>
  private loadConfig(): CypressConfig {
    const configFilePath = Cypress9ConfigParser.getConfigFile(this.workingDirectory);
    let config;
    if (configFilePath) {
      const data = readFileSync(configFilePath);
      config = JSON.parse(data.toString());
    } else {
      throw new Error("no supported config file found.")
    }
    return {...};
  }
  \<close>
\<close>

definition loadConfig9 :: "env \<Rightarrow> string \<Rightarrow> (exn + Cypress9Config) logged" where
  "loadConfig9 env wd =
     and_then (getConfigFile env (VALID_CONFIG_FILE_NAMES Cypress9ConfigParser) wd) (\<lambda>configFilePath.
       case configFilePath of
         None \<Rightarrow> (Inl (Exn ''Error'' ''no supported config file found.''), [])
       | Some p \<Rightarrow>
           if p = [] then (Inl (Exn ''Error'' ''no supported config file found.''), [])
           else (case readFileSync env p of
                   Inl e \<Rightarrow> (Inl e, [])
                 | Inr data \<Rightarrow>
                     (case JSON_parse env data of
                        Inl e \<Rightarrow> (Inl e, [])
                      | Inr config \<Rightarrow> (Inr (withDefaults config), []))))"

text \<open>
  The search specifications of the legacy schema: the arguments with which \<^verbatim>\<open>parseTests\<close>
  below calls \<^verbatim>\<open>parseTestOfType\<close>. The one for component tests exists when
  \<^verbatim>\<open>config.componentFolder\<close> is truthy.
\<close>

definition integrationRule9 :: "Cypress9Config \<Rightarrow> DiscoveryRule" where
  "integrationRule9 config =
     discoveryRule (integrationFolder config) (testFiles config) (ignoreTestFiles config)"

definition componentRule9 :: "Cypress9Config \<Rightarrow> DiscoveryRule option" where
  "componentRule9 config =
     (case componentFolder config of
        None \<Rightarrow> None
      | Some folder \<Rightarrow>
          if folder = [] then None
          else Some (discoveryRule folder (testFiles config) (ignoreTestFiles config)))"

text \<open>
  \<^verbatim>\<open>
  public parseTests(): TestFiles {
    try {
      const config = this.loadConfig();
      const integrationTests = this.parseTestOfType(
        config.integrationFolder, config.testFiles, config.ignoreTestFiles);
      let componentTests;
      if (config.componentFolder) {
        componentTests = this.parseTestOfType(
          config.componentFolder, config.testFiles, config.ignoreTestFiles);
      }
      return {integrationTests, componentTests};
    } catch (e) { ... }
  }
  \<close>
\<close>

definition parseTests9 :: "env \<Rightarrow> string \<Rightarrow> TestFiles logged" where
  "parseTests9 env wd =
     (case loadConfig9 env wd of
        (Inl e, l) \<Rightarrow> caught e l
      | (Inr config, l) \<Rightarrow>
          (case parseTestOfType env wd (integrationFolder config) (testFiles config)
                  (ignoreTestFiles config) of
             Inl e \<Rightarrow> caught e l
           | Inr integration \<Rightarrow>
               (case componentFolder config of
                  None \<Rightarrow> (\<lparr>integrationTests = integration, componentTests = None\<rparr>, l)
                | Some folder \<Rightarrow>
                    if folder = []
                    then (\<lparr>integrationTests = integration, componentTests = None\<rparr>, l)
                    else (case parseTestOfType env wd folder (testFiles config)
                                 (ignoreTestFiles config) of
                            Inl e \<Rightarrow> caught e l
                          | Inr component \<Rightarrow>
                              (\<lparr>integrationTests = integration,
                                componentTests = Some component\<rparr>, l)))))"

subsection \<open>cypressConfigParser.ts\<close>

record spec_patterns =
  specPattern :: "string list"
  excludeSpecPattern :: "string list"

record CypressConfig =
  e2e :: spec_patterns
  component :: spec_patterns

definition DEFAULT_EXCLUDE_SPEC_PATTERNS :: "string list" where
  "DEFAULT_EXCLUDE_SPEC_PATTERNS = [''**/node_modules/**'']"

text \<open>
  \<^verbatim>\<open>
    if (typeof x === "string") { patterns = [x]; } else { patterns = x; }
  \<close>
\<close>

fun as_list :: "SpecPattern \<Rightarrow> string list" where
  "as_list (Single p) = [p]"
| "as_list (Several ps) = ps"

text \<open>
  The part of \<^verbatim>\<open>processConfig\<close> after the script has been loaded: the unwrapping of the
  \<^verbatim>\<open>default\<close> key and the resolution of the defaults.
  \<^verbatim>\<open>
    let e2eSpecPattern = ["cypress/e2e/**/*.cy.{js,jsx,ts,tsx}"];
    let e2eExcludeSpecPattern = [...DEFAULT_EXCLUDE_SPEC_PATTERNS, "*.hot-update.js"];
    if (config.e2e !== undefined) {
      if (config.e2e.specPattern !== undefined) { e2eSpecPattern = ... }
      if (config.e2e.excludeSpecPattern !== undefined) {
        e2eExcludeSpecPattern = [...DEFAULT_EXCLUDE_SPEC_PATTERNS, ...excludeSpecPattern];
      }
    }
    let componentSpecPattern = ["**/*.cy.{js,jsx,ts,tsx}"];
    let componentExcludeSpecPattern = [
      ...DEFAULT_EXCLUDE_SPEC_PATTERNS, ...e2eSpecPattern, "/snapshots/*", "/image_snapshots/*"];
    if (config.component !== undefined) {
      if (config.component.specPattern !== undefined) { componentSpecPattern = ... }
      if (config.component.excludeSpecPattern !== undefined) {
        componentExcludeSpecPattern = [
          ...DEFAULT_EXCLUDE_SPEC_PATTERNS, ...e2eSpecPattern, ...excludeSpecPattern];
      }
    }
  \<close>
\<close>

definition resolveConfig :: "module_exports \<Rightarrow> CypressConfig" where
  "resolveConfig rawConfig =
     (let config = (case rawConfig of DefaultExport c \<Rightarrow> c | Exports c \<Rightarrow> c);
          e2eSpecPattern =
            (case opt_e2e config of
               None \<Rightarrow> [''cypress/e2e/**/*.cy.{js,jsx,ts,tsx}'']
             | Some s \<Rightarrow> (case opt_specPattern s of
                            None \<Rightarrow> [''cypress/e2e/**/*.cy.{js,jsx,ts,tsx}'']
                          | Some p \<Rightarrow> as_list p));
          e2eExcludeSpecPattern =
            (case opt_e2e config of
               None \<Rightarrow> DEFAULT_EXCLUDE_SPEC_PATTERNS @ [''*.hot-update.js'']
             | Some s \<Rightarrow> (case opt_excludeSpecPattern s of
                            None \<Rightarrow> DEFAULT_EXCLUDE_SPEC_PATTERNS @ [''*.hot-update.js'']
                          | Some p \<Rightarrow> DEFAULT_EXCLUDE_SPEC_PATTERNS @ as_list p));
          componentSpecPattern =
            (case opt_component config of
               None \<Rightarrow> [''**/*.cy.{js,jsx,ts,tsx}'']
             | Some s \<Rightarrow> (case opt_specPattern s of
                            None \<Rightarrow> [''**/*.cy.{js,jsx,ts,tsx}'']
                          | Some p \<Rightarrow> as_list p));
          componentExcludeSpecPattern =
            (case opt_component config of
               None \<Rightarrow> DEFAULT_EXCLUDE_SPEC_PATTERNS @ e2eSpecPattern
                         @ [''/snapshots/*'', ''/image_snapshots/*'']
             | Some s \<Rightarrow> (case opt_excludeSpecPattern s of
                            None \<Rightarrow> DEFAULT_EXCLUDE_SPEC_PATTERNS @ e2eSpecPattern
                                      @ [''/snapshots/*'', ''/image_snapshots/*'']
                          | Some p \<Rightarrow> DEFAULT_EXCLUDE_SPEC_PATTERNS @ e2eSpecPattern
                                        @ as_list p))
      in \<lparr>e2e = \<lparr>specPattern = e2eSpecPattern, excludeSpecPattern = e2eExcludeSpecPattern\<rparr>,
          component = \<lparr>specPattern = componentSpecPattern,
                       excludeSpecPattern = componentExcludeSpecPattern\<rparr>\<rparr>)"

text \<open>
  \<^verbatim>\<open>
  protected processConfig(configFilePath: string): CypressConfig {
    if (configFilePath === null) { throw new Error("no supported config file found.") }
    const rawConfig = require(path.resolve(configFilePath));
    ...
  }
  \<close>
  Both callers pass a string, so the first test never holds.
\<close>

definition processConfig :: "env \<Rightarrow> string \<Rightarrow> exn + CypressConfig" where
  "processConfig env configFilePath =
     (case require env (path_resolve env configFilePath) of
        Inl e \<Rightarrow> Inl e
      | Inr rawConfig \<Rightarrow> Inr (resolveConfig rawConfig))"

text \<open>
  \<^verbatim>\<open>
  private transpileTypescriptConfig(configFilePath): string {
    const jsConfigPath = path.join(
      mkdtempSync(path.join(tmpRoot, "cypress-parallel_")), CONFIG_FILE_NAME_JS);
    const tsConfigFileText = readFileSync(configFilePath).toString();
    const results = ts.transpileModule(tsConfigFileText, ...)
    if (results.diagnostics && results.diagnostics.length > 0) {
      this.reportDiagnostics(results.diagnostics);
      throw new Error(`Failed to transpile Cypress typescript config at "${
        path.join(process.cwd(), configFilePath)}"`);
    }
    writeFileSync(jsConfigPath, results.outputText);
    return jsConfigPath;
  }
  \<close>
  \<open>mkdtempSync env\<close> is the outcome of the one call of \<^verbatim>\<open>mkdtempSync\<close>;
  \<^verbatim>\<open>reportDiagnostics\<close> prints to the console and is left out.
\<close>

definition transpileTypescriptConfig :: "env \<Rightarrow> string \<Rightarrow> exn + string" where
  "transpileTypescriptConfig env configFilePath =
     (case mkdtempSync env of
        Inl e \<Rightarrow> Inl e
      | Inr dir \<Rightarrow>
          (let jsConfigPath = path_join env dir ''cypress.config.js'' in
           case readFileSync env configFilePath of
             Inl e \<Rightarrow> Inl e
           | Inr tsConfigFileText \<Rightarrow>
               (case ts_transpileModule env tsConfigFileText of
                  (outputText, diagnostics) \<Rightarrow>
                    if length diagnostics > 0
                    then Inl (Exn ''Error''
                           (''Failed to transpile Cypress typescript config at '' @ [CHR 0x22]
                            @ path_join env (process_cwd env) configFilePath @ [CHR 0x22]))
                    else (case writeFileSync env jsConfigPath outputText of
                            Some e \<Rightarrow> Inl e
                          | None \<Rightarrow> Inr jsConfigPath))))"

text \<open>
  \<^verbatim>\<open>loadConfig\<close> of \<^verbatim>\<open>CypressJSConfigParser\<close> and of \<^verbatim>\<open>CypressTSConfigParser\<close>:
  \<^verbatim>\<open>
    const configFilePath = CypressTSConfigParser.getConfigFile(this.workingDirectory);
    let config;
    if (configFilePath) {
      const jsConfigFilePath = this.transpileTypescriptConfig(configFilePath);   // TS only
      config = this.processConfig(jsConfigFilePath)
    } else {
      throw new Error("no supported config file found.")
    }
    return config;
  \<close>
  On the legacy class, which has a \<^verbatim>\<open>loadConfig\<close> of its own, the function is not used.
\<close>

definition loadConfig :: "env \<Rightarrow> parser_kind \<Rightarrow> string \<Rightarrow> (exn + CypressConfig) logged" where
  "loadConfig env k wd =
     and_then (getConfigFile env (VALID_CONFIG_FILE_NAMES k) wd) (\<lambda>configFilePath.
       case configFilePath of
         None \<Rightarrow> (Inl (Exn ''Error'' ''no supported config file found.''), [])
       | Some p \<Rightarrow>
           if p = [] then (Inl (Exn ''Error'' ''no supported config file found.''), [])
           else (case k of
                   CypressTSConfigParser \<Rightarrow>
                     (case transpileTypescriptConfig env p of
                        Inl e \<Rightarrow> (Inl e, [])
                      | Inr jsConfigFilePath \<Rightarrow> (processConfig env jsConfigFilePath, []))
                 | _ \<Rightarrow> (processConfig env p, [])))"

text \<open>
  \<^verbatim>\<open>
  public parseTests(): TestFiles {
    try {
      const config = this.loadConfig();
      const integrationTests = this.parseTestOfType(
        "", config.e2e.specPattern, config.e2e.excludeSpecPattern);
      const componentTests = this.parseTestOfType(
        "", config.component.specPattern, config.component.excludeSpecPattern);
      return {integrationTests, componentTests};
    } catch (e) { ... }
  }
  \<close>
\<close>

definition parseTests10 :: "env \<Rightarrow> parser_kind \<Rightarrow> string \<Rightarrow> TestFiles logged" where
  "parseTests10 env k wd =
     (case loadConfig env k wd of
        (Inl e, l) \<Rightarrow> caught e l
      | (Inr config, l) \<Rightarrow>
          (case parseTestOfType env wd [] (Several (specPattern (e2e config)))
                  (Some (Several (excludeSpecPattern (e2e config)))) of
             Inl e \<Rightarrow> caught e l
           | Inr integration \<Rightarrow>
               (case parseTestOfType env wd [] (Several (specPattern (component config)))
                       (Some (Several (excludeSpecPattern (component config)))) of
                  Inl e \<Rightarrow> caught e l
                | Inr componentTs \<Rightarrow>
                    (\<lparr>integrationTests = integration,
                      componentTests = Some componentTs\<rparr>, l))))"

text \<open>The search specifications of the modern schema, as passed above.\<close>

definition e2eRule :: "CypressConfig \<Rightarrow> DiscoveryRule" where
  "e2eRule config =
     discoveryRule [] (Several (specPattern (e2e config)))
       (Some (Several (excludeSpecPattern (e2e config))))"

definition componentRule :: "CypressConfig \<Rightarrow> DiscoveryRule" where
  "componentRule config =
     discoveryRule [] (Several (specPattern (component config)))
       (Some (Several (excludeSpecPattern (component config))))"

text \<open>The method \<^verbatim>\<open>parseTests\<close> of a parser, dispatched on its class.\<close>

definition parseTests :: "env \<Rightarrow> parser \<Rightarrow> TestFiles logged" where
  "parseTests env p =
     (case kind p of
        Cypress9ConfigParser \<Rightarrow> parseTests9 env (this_workingDirectory p)
      | k \<Rightarrow> parseTests10 env k (this_workingDirectory p))"

subsection \<open>The entry point\<close>

text \<open>
  \<^verbatim>\<open>
  async function parserFactory(config: Config): Promise<CypressBaseConfigParser | null> {
    if (await CypressTSConfigParser.hasConfigFile(config.workingDirectory)) {
      return new CypressTSConfigParser(config);
    } else if (await CypressJSConfigParser.hasConfigFile(config.workingDirectory)) {
      return new CypressJSConfigParser(config);
    } else if (await Cypress9ConfigParser.hasConfigFile(config.workingDirectory)) {
      return new Cypress9ConfigParser(config);
    } else {
      return null;
    }
  }
  \<close>
\<close>

definition parserFactory :: "env \<Rightarrow> Config \<Rightarrow> (exn + parser option) logged" where
  "parserFactory env config =
     and_then (hasConfigFile env (VALID_CONFIG_FILE_NAMES CypressTSConfigParser)
             (config_workingDirectory config)) (\<lambda>ts.
       if ts then (Inr (Some (new_parser env CypressTSConfigParser config)), [])
       else and_then (hasConfigFile env (VALID_CONFIG_FILE_NAMES CypressJSConfigParser)
                    (config_workingDirectory config)) (\<lambda>js.
         if js then (Inr (Some (new_parser env CypressJSConfigParser config)), [])
         else and_then (hasConfigFile env (VALID_CONFIG_FILE_NAMES Cypress9ConfigParser)
                      (config_workingDirectory config)) (\<lambda>json.
           if json then (Inr (Some (new_parser env Cypress9ConfigParser config)), [])
           else (Inr None, []))))"

text \<open>
  What a run leaves behind: the argument of \<^verbatim>\<open>setFailed\<close> if it was called, the calls of
  \<^verbatim>\<open>setOutput\<close> in order, and the messages logged with \<^verbatim>\<open>error\<close>.
\<close>

record outcome =
  failed :: "string option"
  outputs :: "(string \<times> string js_array) list"
  errors :: "string list"

text \<open>
  \<^verbatim>\<open>
  export default async function parse(): Promise<void> {
    const config: Config = {
      workingDirectory: getInput("working-directory"),
      countRunners: Number(getInput("count-runners"))
    };
    try {
      const parser = await parserFactory(config);
      if (!parser) { setFailed("No supported Cypress config file found."); return; }
      const {integrationTests, componentTests} = await parser.parseTests();
      if ((integrationTests.length === 0)
          && (!componentTests || (componentTests?.length === 0))) {
        setFailed("No tests found");
        return;
      }
      const integrationTestGroups = createTestGroups(config.countRunners, integrationTests);
      setOutput("integration-tests", integrationTestGroups);
      if (componentTests) {
        const componentTestGroups = createTestGroups(config.countRunners, componentTests);
        setOutput("component-tests", componentTestGroups);
      }
    } catch (e) {
      setFailed(`Action failed with error: ${e}`);
    }
  }
  \<close>
  The two inputs are taken as read: \<open>config\<close> is the record built in the first statement.
\<close>

definition parse :: "env \<Rightarrow> Config \<Rightarrow> outcome" where
  "parse env config =
     (case parserFactory env config of
        (Inl e, l) \<Rightarrow>
          \<lparr>failed = Some (''Action failed with error: '' @ exn_toString e),
           outputs = [], errors = l\<rparr>
      | (Inr None, l) \<Rightarrow>
          \<lparr>failed = Some ''No supported Cypress config file found.'', outputs = [], errors = l\<rparr>
      | (Inr (Some p), l) \<Rightarrow>
          (case parseTests env p of
             (tests, l') \<Rightarrow>
               if length (integrationTests tests) = 0
                  \<and> (case componentTests tests of None \<Rightarrow> True | Some c \<Rightarrow> length c = 0)
               then \<lparr>failed = Some ''No tests found'', outputs = [], errors = l @ l'\<rparr>
               else \<lparr>failed = None,
                     outputs =
                       (''integration-tests'',
                        createTestGroups (countRunners config) (integrationTests tests))
                       # (case componentTests tests of
                            None \<Rightarrow> []
                          | Some c \<Rightarrow>
                              [(''component-tests'',
                                createTestGroups (countRunners config) c)]),
                     errors = l @ l'\<rparr>))"

subsection \<open>A small world to run the program in\<close>

text \<open>
  Paths are joined with a slash, and a pattern matches a file if it is the file's path,
  or if it is \<open>*\<close>; a leading \<open>!\<close> negates the rest of the pattern.
\<close>

definition simple_join :: "string \<Rightarrow> string \<Rightarrow> string" where
  "simple_join a b = (if a = [] then b else if b = [] then a else a @ ''/'' @ b)"

definition simple_relative :: "string \<Rightarrow> string \<Rightarrow> string" where
  "simple_relative rootDir p = drop (Suc (length rootDir)) p"

fun simple_match :: "string \<Rightarrow> string \<Rightarrow> bool" where
  "simple_match f [] = (f = [])"
| "simple_match f (c # p) =
     (if c = CHR ''!'' then \<not> simple_match f p else (c # p = ''*'' \<or> f = c # p))"

text \<open>
  A repository at \<open>/repo\<close> with the files \<open>tree\<close>, in which the configuration script,
  whichever its name, exports \<open>exports\<close> and \<^verbatim>\<open>cypress.json\<close> holds \<open>json\<close>.
\<close>

definition world :: "(string \<times> node) list \<Rightarrow> module_exports \<Rightarrow> cypress9_json \<Rightarrow> env" where
  "world tree exports json =
     \<lparr>process_cwd = ''/repo'',
      node_at = (\<lambda>p. if p = ''/repo'' then Some (Directory tree) else None),
      path_join = simple_join,
      path_relative = simple_relative,
      path_resolve = (\<lambda>p. p),
      minimatch = simple_match,
      readFileSync = (\<lambda>p. Inr ''text''),
      JSON_parse = (\<lambda>t. Inr json),
      require = (\<lambda>p. Inr exports),
      mkdtempSync = Inr ''/tmp/cypress-parallel_1'',
      ts_transpileModule = (\<lambda>t. (t, [])),
      writeFileSync = (\<lambda>p t. None)\<rparr>"

definition no_options :: config_options where
  "no_options = \<lparr>opt_e2e = None, opt_component = None\<rparr>"

definition no_json :: cypress9_json where
  "no_json = \<lparr>json_componentFolder = None, json_ignoreTestFiles = None,
              json_integrationFolder = None, json_testFiles = None\<rparr>"

section \<open>Properties of the grouping\<close>

lemma chunks_Nil [simp]: "chunks k [] = []"
  by simp

lemma chunks_step: "0 < k \<Longrightarrow> xs \<noteq> [] \<Longrightarrow> chunks k xs = take k xs # chunks k (drop k xs)"
  by simp

declare chunks.simps [simp del]

lemma length_chunks: "0 < k \<Longrightarrow> length (chunks k xs) = (length xs + k - 1) div k"
proof (induction k xs rule: chunks.induct)
  case (1 k xs)
  show ?case
  proof (cases "xs = []")
    case True
    with 1(2) show ?thesis by simp
  next
    case False
    have ih: "length (chunks k (drop k xs)) = (length (drop k xs) + k - 1) div k"
      using 1 False by simp
    show ?thesis
    proof (cases "length xs \<le> k")
      case True
      with False 1(2) have "(length xs + k - 1) div k = 1"
        by (cases xs) (auto simp: div_eq_dividend_iff Suc_le_eq div_nat_eqI)
      with True False 1(2) show ?thesis by (simp add: chunks_step)
    next
      case gt: False
      then have "length xs + k - 1 = (length xs - k + k - 1) + k" by simp
      then have "(length xs + k - 1) div k = Suc ((length xs - k + k - 1) div k)"
        using 1(2) by (metis div_add_self2 not_gr_zero Suc_eq_plus1)
      with ih False 1(2) show ?thesis by (simp add: chunks_step)
    qed
  qed
qed

lemma chunks_snoc:
  "0 < k \<Longrightarrow> chunks k (xs @ [x]) =
     (if length xs mod k = 0 then chunks k xs @ [[x]]
      else butlast (chunks k xs) @ [last (chunks k xs) @ [x]])"
proof (induction k xs rule: chunks.induct)
  case (1 k xs)
  show ?case
  proof (cases "xs = []")
    case True
    with 1(2) show ?thesis by (simp add: chunks_step)
  next
    case ne: False
    show ?thesis
    proof (cases "length xs < k")
      case True
      with ne 1(2) show ?thesis by (simp add: chunks_step)
    next
      case False
      then have ge: "k \<le> length xs" by simp
      have ih: "chunks k (drop k xs @ [x]) =
        (if length (drop k xs) mod k = 0 then chunks k (drop k xs) @ [[x]]
         else butlast (chunks k (drop k xs)) @ [last (chunks k (drop k xs)) @ [x]])"
        using 1 ne by simp
      have m: "length (drop k xs) mod k = length xs mod k"
        using ge by (simp add: le_mod_geq)
      have step: "chunks k (xs @ [x]) = take k xs # chunks k (drop k xs @ [x])"
        using ge 1(2) by (simp add: chunks_step)
      show ?thesis
      proof (cases "length xs mod k = 0")
        case True
        with ih m step ne 1(2) show ?thesis by (simp add: chunks_step)
      next
        case nz: False
        with m have "drop k xs \<noteq> []" by auto
        then have "chunks k (drop k xs) \<noteq> []" using 1(2) by (simp add: chunks_step)
        with ih m step ne nz 1(2) show ?thesis by (simp add: chunks_step)
      qed
    qed
  qed
qed

lemma ceil_div_exact:
  assumes "0 < k" "n mod k = 0"
  shows "(n + k - 1) div k = (n::nat) div k"
proof (rule div_nat_eqI)
  have n: "n = k * (n div k)" using assms(2) by auto
  show "k * (n div k) \<le> n + k - 1" using n assms(1) by linarith
  show "n + k - 1 < k * Suc (n div k)" using n assms(1) by (simp add: algebra_simps)
qed

lemma ceil_div_inexact:
  assumes "0 < k" "n mod k \<noteq> 0"
  shows "(n + k - 1) div k = Suc ((n::nat) div k)"
proof -
  define q where "q = n div k"
  define r where "r = n mod k"
  have n: "n = k * q + r" by (simp add: q_def r_def)
  have r: "0 < r" "r < k" using assms by (auto simp: r_def)
  have e: "k * Suc q = k * q + k" "k * Suc (Suc q) = k * q + k + k" by simp_all
  have "(n + k - 1) div k = Suc q"
  proof (rule div_nat_eqI)
    have "k * q + k \<le> n + k - 1" using n r by linarith
    then show "k * Suc q \<le> n + k - 1" unfolding e .
    have "n + k - 1 < k * q + k + k" using n r by linarith
    then show "n + k - 1 < k * Suc (Suc q)" unfolding e .
  qed
  then show ?thesis by (simp add: q_def)
qed

lemma get_set_index: "get_index (set_index arr j v) j = Some v"
  by (simp add: get_index_def set_index_def nth_append)

lemma add_to_group_Finite:
  assumes "0 < k"
  shows "add_to_group (Finite (of_nat k)) i x groups =
     (case get_index groups (i div k) of
        None \<Rightarrow> set_index (set_index groups (i div k) []) (i div k) [x]
      | Some g \<Rightarrow> set_index groups (i div k) (g @ [x]))"
proof -
  have "to_key (Math_floor (divide_by i (Finite (of_nat k)))) = Index (i div k)"
    using assms by (simp add: floor_divide_of_nat_eq)
  then show ?thesis
    by (simp add: add_to_group_def get_set_index split: option.split)
qed

lemma add_to_group_chunks:
  assumes "0 < k"
  shows "add_to_group (Finite (of_nat k)) (length xs) x (map Some (chunks k xs))
         = map Some (chunks k (xs @ [x]))"
proof -
  let ?gs = "chunks k xs"
  let ?j = "length xs div k"
  have len: "length ?gs = (length xs + k - 1) div k" using assms by (rule length_chunks)
  show ?thesis
  proof (cases "length xs mod k = 0")
    case True
    then have "(length xs + k - 1) div k = ?j" using assms by (rule ceil_div_exact[rotated])
    with len have j: "?j = length ?gs" by simp
    have "(map Some ?gs @ [Some []])[length ?gs := Some [x]] = map Some ?gs @ [Some [x]]"
      using list_update_length[of "map Some ?gs" "Some []" "[]" "Some [x]"] by simp
    then show ?thesis
      using True assms j
      by (simp add: add_to_group_Finite get_index_def set_index_def chunks_snoc)
  next
    case False
    then have "(length xs + k - 1) div k = Suc ?j" using assms
      by (rule ceil_div_inexact[rotated])
    with len have j: "length ?gs = Suc ?j" by simp
    then have ne: "?gs \<noteq> []" by auto
    have "?gs = butlast ?gs @ [last ?gs]" using ne by simp
    have upd: "?gs[?j := ?gs ! ?j @ [x]] = butlast ?gs @ [last ?gs @ [x]]"
      using j ne by (metis append_butlast_last_id diff_Suc_1 last_conv_nth length_butlast list_update_length)
    have "add_to_group (Finite (of_nat k)) (length xs) x (map Some ?gs)
          = map Some (?gs[?j := ?gs ! ?j @ [x]])"
      using assms j
      by (simp add: add_to_group_Finite get_index_def set_index_def map_update)
    with upd False assms show ?thesis by (simp add: chunks_snoc)
  qed
qed

lemma reduce_groups_chunks:
  "0 < k \<Longrightarrow> reduce_groups (Finite (of_nat k)) (length done) items (map Some (chunks k done))
     = map Some (chunks k (done @ items))"
proof (induction items arbitrary: "done")
  case Nil
  then show ?case by simp
next
  case (Cons item rest)
  have "reduce_groups (Finite (of_nat k)) (length done) (item # rest) (map Some (chunks k done))
        = reduce_groups (Finite (of_nat k)) (length (done @ [item])) rest (map Some (chunks k (done @ [item])))"
    using Cons.prems by (simp add: add_to_group_chunks)
  also have "\<dots> = map Some (chunks k ((done @ [item]) @ rest))"
    using Cons.prems by (rule Cons.IH)
  finally show ?case by simp
qed

lemma concat_chunks: "0 < k \<Longrightarrow> concat (chunks k xs) = xs"
proof (induction k xs rule: chunks.induct)
  case (1 k xs)
  then show ?case by (cases "xs = []") (simp_all add: chunks_step)
qed

lemma chunks_nth:
  "0 < k \<Longrightarrow> i < length (chunks k xs) \<Longrightarrow> chunks k xs ! i = take k (drop (i * k) xs)"
proof (induction k xs arbitrary: i rule: chunks.induct)
  case (1 k xs)
  show ?case
  proof (cases "xs = []")
    case True
    with 1(3) show ?thesis by simp
  next
    case False
    show ?thesis
    proof (cases i)
      case 0
      with False 1(2) show ?thesis by (simp add: chunks_step)
    next
      case (Suc j)
      with 1(3) False 1(2) have "j < length (chunks k (drop k xs))" by (simp add: chunks_step)
      with 1 False have "chunks k (drop k xs) ! j = take k (drop (j * k) (drop k xs))" by simp
      with Suc False 1(2) show ?thesis by (simp add: chunks_step add.commute)
    qed
  qed
qed

lemma ceiling_of_nat_div:
  assumes "0 < k"
  shows "\<lceil>(of_nat n :: rat) / of_nat k\<rceil> = int ((n + k - 1) div k)"
proof -
  have "(of_nat n :: rat) / of_nat k = - (of_int (- int n) / of_int (int k))" by simp
  then have "\<lceil>(of_nat n :: rat) / of_nat k\<rceil> = - ((- int n) div int k)"
    unfolding ceiling_def by (simp only: minus_minus floor_divide_of_int_eq)
  also have "\<dots> = int ((n + k - 1) div k)"
  proof (cases "n mod k = 0")
    case True
    then have "int n mod int k = 0" by (metis of_nat_mod of_nat_0)
    with assms have "- ((- int n) div int k) = int (n div k)"
      by (simp add: zdiv_zminus1_eq_if zdiv_int)
    then show ?thesis by (simp only: ceil_div_exact[OF assms True])
  next
    case False
    then have "int n mod int k \<noteq> 0" by (metis of_nat_mod of_nat_eq_0_iff)
    with assms have "- ((- int n) div int k) = int (Suc (n div k))"
      by (simp add: zdiv_zminus1_eq_if zdiv_int)
    then show ?thesis by (simp only: ceil_div_inexact[OF assms False])
  qed
  finally show ?thesis .
qed

lemma chunk_index_bound:
  assumes "0 < k" "i < (n + k - 1) div k"
  shows "i * k < (n::nat)"
proof (rule ccontr)
  assume "\<not> i * k < n"
  then have "n + k - 1 < (i + 1) * k" using assms(1) by (simp add: algebra_simps)
  then have "(n + k - 1) div k < i + 1" using assms(1)
    by (simp add: div_less_iff_less_mult)
  with assms(2) show False by simp
qed

lemma chunks_nonempty:
  assumes "0 < k" "g \<in> set (chunks k xs)"
  shows "g \<noteq> [] \<and> length g \<le> k"
proof -
  from assms(2) obtain i where i: "i < length (chunks k xs)" "g = chunks k xs ! i"
    by (auto simp: in_set_conv_nth)
  then have "i * k < length xs" using assms(1) by (simp add: length_chunks chunk_index_bound)
  moreover have "g = take k (drop (i * k) xs)" using i assms(1) by (simp add: chunks_nth)
  ultimately show ?thesis using assms(1) by auto
qed

lemma chunks_full:
  assumes "0 < k" "Suc i < length (chunks k xs)"
  shows "length (chunks k xs ! i) = k"
proof -
  have "Suc i < (length xs + k - 1) div k" using assms by (simp only: length_chunks)
  with assms(1) have "Suc i * k < length xs" by (rule chunk_index_bound)
  then have "k \<le> length xs - i * k" by simp
  moreover have "chunks k xs ! i = take k (drop (i * k) xs)"
    using assms by (simp add: chunks_nth)
  ultimately show ?thesis by simp
qed

lemma groups_le_count:
  assumes "0 < c" "0 < n"
  shows "(n + (n + c - 1) div c - 1) div ((n + c - 1) div c) \<le> (c::nat)"
proof -
  define k where "k = (n + c - 1) div c"
  have le: "n \<le> c * k"
  proof (cases "n mod c = 0")
    case True
    have "k = n div c" unfolding k_def using assms(1) True by (rule ceil_div_exact)
    with True show ?thesis by auto
  next
    case False
    have "k = Suc (n div c)" unfolding k_def using assms(1) False by (rule ceil_div_inexact)
    then have "c * k = c * (n div c) + c" by simp
    moreover have "c * (n div c) + n mod c = n" by simp
    moreover have "n mod c < c" using assms(1) by simp
    ultimately show ?thesis by linarith
  qed
  have pos: "0 < k" using assms le by (cases k) auto
  from le pos have "n + k - 1 < (c + 1) * k" by (simp add: algebra_simps)
  then have "(n + k - 1) div k < c + 1" using pos by (simp add: div_less_iff_less_mult)
  then show ?thesis unfolding k_def by simp
qed

lemma createTestGroups_Finite:
  assumes "0 < k"
  shows "createTestGroups (Finite (of_nat k)) tests =
         map (\<lambda>g. Some (join '','' g)) (chunks ((length tests + k - 1) div k) tests)"
proof (cases "tests = []")
  case True
  then show ?thesis using assms by (simp add: createTestGroups_def)
next
  case False
  define cs where "cs = (length tests + k - 1) div k"
  have "k \<le> length tests + k - 1" using False by (cases tests) auto
  then have cs: "0 < cs" unfolding cs_def using assms by (simp add: div_greater_zero_iff)
  have "Math_ceil (divide_by (length tests) (Finite (of_nat k))) = Finite (of_nat cs)"
    using assms by (simp add: ceiling_of_nat_div cs_def)
  moreover have "reduce_groups (Finite (of_nat cs)) (length ([]::string list)) tests (map Some (chunks cs []))
        = map Some (chunks cs ([] @ tests))"
    using cs by (rule reduce_groups_chunks)
  ultimately show ?thesis unfolding cs_def[symmetric] using assms
    by (simp add: createTestGroups_def comp_def)
qed

text \<open>
  C1: for every list of test paths and every positive integer count, the result of
  \<^const>\<open>createTestGroups\<close> is the list of the consecutive chunks of size
  \<open>ceil (length tests / count)\<close>, each joined with a comma. The chunks concatenate to the
  input (nothing is reordered, dropped or repeated), chunk \<open>i\<close> holds the entries from
  position \<open>i * chunkSize\<close> on, every chunk but the last has exactly \<open>chunkSize\<close> entries,
  no chunk is empty or longer than \<open>chunkSize\<close>, and for a non-empty input the number of
  groups is \<open>ceil (length tests / chunkSize)\<close>, which never exceeds the count. The empty input
  gives no group at all.
\<close>

theorem createTestGroups_partitions:
  fixes count :: int and tests :: "string list"
  assumes "0 < count"
  shows "let chunkSize = nat \<lceil>(of_nat (length tests) :: rat) / of_int count\<rceil>;
             gs = chunks chunkSize tests
         in createTestGroups (Finite (of_int count)) tests = map (\<lambda>g. Some (join '','' g)) gs
          \<and> concat gs = tests
          \<and> (\<forall>i < length gs. gs ! i = take chunkSize (drop (i * chunkSize) tests))
          \<and> (\<forall>i. Suc i < length gs \<longrightarrow> length (gs ! i) = chunkSize)
          \<and> (\<forall>g \<in> set gs. g \<noteq> [] \<and> length g \<le> chunkSize)
          \<and> (tests = [] \<longrightarrow> gs = [])
          \<and> (tests \<noteq> [] \<longrightarrow> 0 < chunkSize
                \<and> int (length gs) = \<lceil>(of_nat (length tests) :: rat) / of_nat chunkSize\<rceil>)
          \<and> int (length gs) \<le> count"
proof -
  define k where "k = nat count"
  define cs where "cs = nat \<lceil>(of_nat (length tests) :: rat) / of_int count\<rceil>"
  define gs where "gs = chunks cs tests"
  have k: "0 < k" "of_int count = (of_nat k :: rat)" "count = int k"
    using assms by (simp_all add: k_def)
  have cs: "cs = (length tests + k - 1) div k"
    unfolding cs_def k(2) by (simp add: ceiling_of_nat_div[OF k(1)])
  have pos: "0 < cs" if "tests \<noteq> []"
  proof -
    have "k \<le> length tests + k - 1" using that by (cases tests) auto
    then show ?thesis unfolding cs using k(1) by (simp add: div_greater_zero_iff)
  qed
  have empty: "gs = []" if "tests = []" using that by (simp add: gs_def)
  have c1: "createTestGroups (Finite (of_int count)) tests = map (\<lambda>g. Some (join '','' g)) gs"
    unfolding k(2) gs_def cs by (rule createTestGroups_Finite[OF k(1)])
  have c2: "concat gs = tests"
    by (cases "tests = []") (simp_all add: gs_def concat_chunks pos)
  have c3: "\<forall>i < length gs. gs ! i = take cs (drop (i * cs) tests)"
    by (cases "tests = []") (simp_all add: gs_def chunks_nth pos)
  have c4: "\<forall>i. Suc i < length gs \<longrightarrow> length (gs ! i) = cs"
    by (cases "tests = []") (simp_all add: gs_def chunks_full pos)
  have c5: "\<forall>g \<in> set gs. g \<noteq> [] \<and> length g \<le> cs"
  proof (cases "tests = []")
    case True
    then show ?thesis by (simp add: empty)
  next
    case False
    then show ?thesis using chunks_nonempty[OF pos, of _ tests] by (auto simp: gs_def)
  qed
  have c6: "int (length gs) = \<lceil>(of_nat (length tests) :: rat) / of_nat cs\<rceil>" if "tests \<noteq> []"
    using pos[OF that] by (simp add: gs_def length_chunks ceiling_of_nat_div)
  have c7: "int (length gs) \<le> count"
  proof (cases "tests = []")
    case True
    then show ?thesis using assms by (simp add: empty)
  next
    case False
    then have "length gs = (length tests + cs - 1) div cs"
      using pos by (simp add: gs_def length_chunks)
    moreover have "(length tests + cs - 1) div cs \<le> k"
      unfolding cs using k(1) False by (intro groups_le_count) auto
    ultimately show ?thesis using k(3) by simp
  qed
  show ?thesis
    unfolding Let_def cs_def[symmetric] gs_def[symmetric]
    using c1 c2 c3 c4 c5 c6 c7 empty pos by blast
qed

theorem createTestGroups_partitions_witness:
  "(0::int) < 2
   \<and> createTestGroups (Finite 2) [''p1'', ''p2'', ''p3'', ''p4'', ''p5'']
       = [Some ''p1,p2,p3'', Some ''p4,p5'']
   \<and> chunks 3 [''p1'', ''p2'', ''p3'', ''p4'', ''p5''] = [[''p1'', ''p2'', ''p3''], [''p4'', ''p5'']]"
proof -
  have c: "chunks 3 [''p1'', ''p2'', ''p3'', ''p4'', ''p5''] = [[''p1'', ''p2'', ''p3''], [''p4'', ''p5'']]"
    by (simp add: chunks_step)
  have n: "nat \<lceil>(of_nat (length [''p1'', ''p2'', ''p3'', ''p4'', ''p5'']) :: rat) / of_int 2\<rceil> = 3"
  proof -
    have "\<lceil>5 / 2 :: rat\<rceil> = 3" by (rule ceiling_unique) simp_all
    then show ?thesis by simp
  qed
  show ?thesis
    using createTestGroups_partitions[of 2 "[''p1'', ''p2'', ''p3'', ''p4'', ''p5'']"]
    unfolding Let_def n c by simp
qed

text \<open>
  C8, as stated, fails: the guard of \<^const>\<open>createTestGroups\<close> is
  \<^verbatim>\<open>isNaN(groupCount) || groupCount <= 0\<close>, which a positive count that is not an
  integer passes. With \<^verbatim>\<open>count-runners: "1.5"\<close> and three paths the chunk size is
  \<open>ceil (3 / 1.5) = 2\<close> (the quotient is exact as a double, too) and the paths are joined.
\<close>

theorem createTestGroups_fractional_count_groups:
  "createTestGroups (Finite (3 / 2)) [''a'', ''b'', ''c''] = [Some ''a,b'', Some ''c'']
   \<and> createTestGroups (Finite (3 / 2)) [''a'', ''b'', ''c''] \<noteq> map Some [''a'', ''b'', ''c'']
   \<and> (3 / 2 :: rat) \<notin> \<int>"
proof -
  have "\<lfloor>3 / 2 :: rat\<rfloor> = 1" by (rule floor_unique) simp_all
  then have "frac (3 / 2 :: rat) \<noteq> 0" by (simp add: frac_def)
  then have "(3 / 2 :: rat) \<notin> \<int>" by (simp add: frac_eq_0_iff)
  moreover have "createTestGroups (Finite (3 / 2)) [''a'', ''b'', ''c''] = [Some ''a,b'', Some ''c'']"
    by (simp add: createTestGroups_def add_to_group_def get_index_def set_index_def)
  ultimately show ?thesis by simp
qed

text \<open>
  C8, amended: for every count that is \<^verbatim>\<open>NaN\<close> (a non-numeric input) or at most zero
  (an integer or not; this includes the empty input, read as \<open>0\<close>, and \<^verbatim>\<open>-Infinity\<close>)
  and every list of test paths, \<^const>\<open>createTestGroups\<close> returns the paths unchanged,
  one entry per path, nothing joined.
\<close>

theorem createTestGroups_invalid_count:
  "isNaN groupCount \<or> le_zero groupCount \<Longrightarrow> createTestGroups groupCount tests = map Some tests"
  by (simp add: createTestGroups_def)

theorem createTestGroups_invalid_count_witness:
  "(isNaN (Finite 0) \<or> le_zero (Finite 0))
   \<and> createTestGroups (Finite 0) [''a.ts'', ''b.ts''] = [Some ''a.ts'', Some ''b.ts'']"
  using createTestGroups_invalid_count [of "Finite 0" "[''a.ts'', ''b.ts'']"] by simp

section \<open>Properties of the discovery\<close>

subsection \<open>Evaluation\<close>

lemma and_then_Inl [simp]: "and_then (Inl e, l) f = (Inl e, l)"
  by (simp add: and_then_def)

lemma and_then_Inr [simp]: "and_then (Inr a, l) f = (fst (f a), l @ snd (f a))"
  by (simp add: and_then_def split: prod.split)

lemma fst_and_then:
  "fst (and_then m f) = (case fst m of Inl e \<Rightarrow> Inl e | Inr a \<Rightarrow> fst (f a))"
  by (cases m) (auto split: sum.split)

lemma discoveryRule_simps [simp]:
  "rootFolder (discoveryRule f p e) = f"
  "includePatterns (discoveryRule f p e) = (case p of Several ps \<Rightarrow> ps | Single q \<Rightarrow> [q])"
  "excludePatterns (discoveryRule f p e) =
     (case e of None \<Rightarrow> [] | Some (Single q) \<Rightarrow> (if q \<noteq> [] then [q] else [])
      | Some (Several ps) \<Rightarrow> ps)"
  by (simp_all add: discoveryRule_def)

lemma world_simps [simp]:
  "process_cwd (world tree ex js) = ''/repo''"
  "node_at (world tree ex js) p = (if p = ''/repo'' then Some (Directory tree) else None)"
  "path_join (world tree ex js) = simple_join"
  "path_relative (world tree ex js) = simple_relative"
  "path_resolve (world tree ex js) p = p"
  "minimatch (world tree ex js) = simple_match"
  "readFileSync (world tree ex js) p = Inr ''text''"
  "JSON_parse (world tree ex js) t = Inr js"
  "require (world tree ex js) p = Inr ex"
  "mkdtempSync (world tree ex js) = Inr ''/tmp/cypress-parallel_1''"
  "ts_transpileModule (world tree ex js) t = (t, [])"
  "writeFileSync (world tree ex js) p t = None"
  by (simp_all add: world_def)

lemmas world_eval = glob_def getConfigFile_def hasConfigFile_def getWorkingDirectory_def
  simple_join_def simple_relative_def new_parser_def

lemmas parse_eval = parseTests_def parseTests10_def parseTests9_def loadConfig_def loadConfig9_def
  processConfig_def resolveConfig_def parseTestOfType_def globRule_def caught_def
  transpileTypescriptConfig_def withDefaults_def DEFAULT_EXCLUDE_SPEC_PATTERNS_def
  DEFAULT_INTEGRATION_FOLDER_def DEFAULT_TEST_FILES_def no_options_def no_json_def

lemma fst_parserFactory:
  "fst (parserFactory env config) =
     (case fst (hasConfigFile env (VALID_CONFIG_FILE_NAMES CypressTSConfigParser)
                  (config_workingDirectory config)) of
        Inl e \<Rightarrow> Inl e
      | Inr ts \<Rightarrow>
          if ts then Inr (Some (new_parser env CypressTSConfigParser config))
          else (case fst (hasConfigFile env (VALID_CONFIG_FILE_NAMES CypressJSConfigParser)
                            (config_workingDirectory config)) of
                  Inl e \<Rightarrow> Inl e
                | Inr js \<Rightarrow>
                    if js then Inr (Some (new_parser env CypressJSConfigParser config))
                    else (case fst (hasConfigFile env (VALID_CONFIG_FILE_NAMES Cypress9ConfigParser)
                                      (config_workingDirectory config)) of
                            Inl e \<Rightarrow> Inl e
                          | Inr json \<Rightarrow>
                              if json then Inr (Some (new_parser env Cypress9ConfigParser config))
                              else Inr None)))"
  unfolding parserFactory_def
  by (simp add: fst_and_then split: sum.split)

lemma parse_no_parser:
  "fst (parserFactory env config) = Inr None \<Longrightarrow>
     failed (parse env config) = Some ''No supported Cypress config file found.''
     \<and> outputs (parse env config) = []"
  by (cases "parserFactory env config") (simp add: parse_def)

subsection \<open>The claims\<close>

text \<open>
  C10: when the root directory does not exist, \<^const>\<open>glob\<close> returns the empty list for
  every set of include and exclude patterns, and raises nothing; hence
  \<^const>\<open>parseTestOfType\<close> on a test folder that is missing below the working directory
  returns the empty list of tests for that category.
\<close>

theorem glob_missing_root:
  "(node_at env rootDir = None \<longrightarrow> glob env rootDir pattern ignorePattern = Inr [])
   \<and> (node_at env (path_join env wd testFolder) = None \<longrightarrow>
        parseTestOfType env wd testFolder pat excl = Inr [])"
  by (simp add: glob_def parseTestOfType_def globRule_def)

theorem glob_missing_root_witness:
  "node_at (world [(''cypress.json'', File)] (Exports no_options) no_json) ''/elsewhere'' = None
   \<and> glob (world [(''cypress.json'', File)] (Exports no_options) no_json) ''/elsewhere''
         [''**/*.*''] [] = Inr []
   \<and> node_at (world [(''cypress.json'', File)] (Exports no_options) no_json)
         (path_join (world [(''cypress.json'', File)] (Exports no_options) no_json)
            ''/repo'' ''cypress/integration'') = None
   \<and> parseTestOfType (world [(''cypress.json'', File)] (Exports no_options) no_json) ''/repo''
         ''cypress/integration'' (Single ''**/*.*'') None = Inr []"
  using glob_missing_root [of "world [(''cypress.json'', File)] (Exports no_options) no_json"
          "''/elsewhere''" "[''**/*.*'']" "[]" "''/repo''" "''cypress/integration''"
          "Single ''**/*.*''" None]
  by (simp add: simple_join_def)

text \<open>
  C7: let \<open>results\<close> be the files below the working directory that match one of the
  candidate names. With no result \<^const>\<open>getConfigFile\<close> returns \<^verbatim>\<open>null\<close> and logs
  nothing; with more than one result it returns \<^verbatim>\<open>null\<close> and logs the error
  \<^verbatim>\<open>Multiple Cypress config files found.\<close>; in both cases the caller
  \<^const>\<open>hasConfigFile\<close> answers false. With exactly one result it returns that file's
  path joined to the working directory it was given.
\<close>

theorem getConfigFile_cases:
  assumes "glob env (getWorkingDirectory env workingDirectory) names [] = Inr results"
  shows "(results = [] \<longrightarrow>
            getConfigFile env names workingDirectory = (Inr None, [])
          \<and> hasConfigFile env names workingDirectory = (Inr False, []))
       \<and> (length results > 1 \<longrightarrow>
            getConfigFile env names workingDirectory
              = (Inr None, [''Multiple Cypress config files found.''])
          \<and> hasConfigFile env names workingDirectory
              = (Inr False, [''Multiple Cypress config files found.'']))
       \<and> (\<forall>f. results = [f] \<longrightarrow>
            getConfigFile env names workingDirectory
              = (Inr (Some (path_join env workingDirectory f)), []))"
  using assms by (auto simp: getConfigFile_def hasConfigFile_def)

theorem getConfigFile_cases_witness:
  "glob (world [(''a.cy.js'', File)] (Exports no_options) no_json)
        (getWorkingDirectory (world [(''a.cy.js'', File)] (Exports no_options) no_json) [])
        [''cypress.json''] [] = Inr []
   \<and> getConfigFile (world [(''a.cy.js'', File)] (Exports no_options) no_json)
        [''cypress.json''] [] = (Inr None, [])
   \<and> getConfigFile (world [(''cypress.config.js'', File), (''cypress.config.mjs'', File)]
          (Exports no_options) no_json)
        [''cypress.config.js'', ''cypress.config.mjs'', ''cypress.config.cjs''] []
       = (Inr None, [''Multiple Cypress config files found.''])
   \<and> getConfigFile (world [(''cypress.json'', File), (''a.cy.js'', File)] (Exports no_options) no_json)
        [''cypress.json''] ''/repo'' = (Inr (Some ''/repo/cypress.json''), [])"
proof -
  let ?w0 = "world [(''a.cy.js'', File)] (Exports no_options) no_json"
  let ?w2 = "world [(''cypress.config.js'', File), (''cypress.config.mjs'', File)]
          (Exports no_options) no_json"
  let ?w1 = "world [(''cypress.json'', File), (''a.cy.js'', File)] (Exports no_options) no_json"
  have g0: "glob ?w0 (getWorkingDirectory ?w0 []) [''cypress.json''] [] = Inr []"
    by (simp add: glob_def getWorkingDirectory_def simple_join_def simple_relative_def)
  have g2: "glob ?w2 (getWorkingDirectory ?w2 [])
              [''cypress.config.js'', ''cypress.config.mjs'', ''cypress.config.cjs''] []
            = Inr [''cypress.config.js'', ''cypress.config.mjs'']"
    by (simp add: glob_def getWorkingDirectory_def simple_join_def simple_relative_def)
  have g1: "glob ?w1 (getWorkingDirectory ?w1 ''/repo'') [''cypress.json''] []
            = Inr [''cypress.json'']"
    by (simp add: glob_def getWorkingDirectory_def simple_join_def simple_relative_def)
  show ?thesis
    using g0 getConfigFile_cases [OF g0] getConfigFile_cases [OF g2] getConfigFile_cases [OF g1]
    by (simp add: simple_join_def)
qed

text \<open>
  C2: \<^const>\<open>parserFactory\<close> asks for the configuration file of the typed-script parser
  (\<^verbatim>\<open>cypress.config.ts\<close>), then of the plain-script parser (\<^verbatim>\<open>cypress.config.js\<close>,
  \<^verbatim>\<open>.mjs\<close>, \<^verbatim>\<open>.cjs\<close>), then of the legacy parser (\<^verbatim>\<open>cypress.json\<close>), and
  returns the parser of the first class for which \<^const>\<open>hasConfigFile\<close> answers true.
  When all three answer false it returns \<^verbatim>\<open>null\<close>, and the run fails with exactly the
  message \<^verbatim>\<open>No supported Cypress config file found.\<close> and sets no output.
\<close>

theorem parserFactory_precedence:
  "VALID_CONFIG_FILE_NAMES CypressTSConfigParser = [''cypress.config.ts'']
   \<and> VALID_CONFIG_FILE_NAMES CypressJSConfigParser
       = [''cypress.config.js'', ''cypress.config.mjs'', ''cypress.config.cjs'']
   \<and> VALID_CONFIG_FILE_NAMES Cypress9ConfigParser = [''cypress.json'']
   \<and> (fst (hasConfigFile env (VALID_CONFIG_FILE_NAMES CypressTSConfigParser)
               (config_workingDirectory config)) = Inr True
        \<longrightarrow> fst (parserFactory env config)
              = Inr (Some (new_parser env CypressTSConfigParser config)))
   \<and> (fst (hasConfigFile env (VALID_CONFIG_FILE_NAMES CypressTSConfigParser)
               (config_workingDirectory config)) = Inr False
        \<and> fst (hasConfigFile env (VALID_CONFIG_FILE_NAMES CypressJSConfigParser)
               (config_workingDirectory config)) = Inr True
        \<longrightarrow> fst (parserFactory env config)
              = Inr (Some (new_parser env CypressJSConfigParser config)))
   \<and> (fst (hasConfigFile env (VALID_CONFIG_FILE_NAMES CypressTSConfigParser)
               (config_workingDirectory config)) = Inr False
        \<and> fst (hasConfigFile env (VALID_CONFIG_FILE_NAMES CypressJSConfigParser)
               (config_workingDirectory config)) = Inr False
        \<and> fst (hasConfigFile env (VALID_CONFIG_FILE_NAMES Cypress9ConfigParser)
               (config_workingDirectory config)) = Inr True
        \<longrightarrow> fst (parserFactory env config)
              = Inr (Some (new_parser env Cypress9ConfigParser config)))
   \<and> (fst (hasConfigFile env (VALID_CONFIG_FILE_NAMES CypressTSConfigParser)
               (config_workingDirectory config)) = Inr False
        \<and> fst (hasConfigFile env (VALID_CONFIG_FILE_NAMES CypressJSConfigParser)
               (config_workingDirectory config)) = Inr False
        \<and> fst (hasConfigFile env (VALID_CONFIG_FILE_NAMES Cypress9ConfigParser)
               (config_workingDirectory config)) = Inr False
        \<longrightarrow> fst (parserFactory env config) = Inr None
            \<and> failed (parse env config) = Some ''No supported Cypress config file found.''
            \<and> outputs (parse env config) = [])"
proof -
  have none: "fst (parserFactory env config) = Inr None"
    if "fst (hasConfigFile env (VALID_CONFIG_FILE_NAMES CypressTSConfigParser)
               (config_workingDirectory config)) = Inr False"
       "fst (hasConfigFile env (VALID_CONFIG_FILE_NAMES CypressJSConfigParser)
               (config_workingDirectory config)) = Inr False"
       "fst (hasConfigFile env (VALID_CONFIG_FILE_NAMES Cypress9ConfigParser)
               (config_workingDirectory config)) = Inr False"
    using that by (simp only: fst_parserFactory) simp
  have last: "failed (parse env config) = Some ''No supported Cypress config file found.''
      \<and> outputs (parse env config) = []"
    if "fst (parserFactory env config) = Inr None"
    using that by (rule parse_no_parser)
  have ts: "fst (parserFactory env config)
              = Inr (Some (new_parser env CypressTSConfigParser config))"
    if "fst (hasConfigFile env (VALID_CONFIG_FILE_NAMES CypressTSConfigParser)
               (config_workingDirectory config)) = Inr True"
    using that by (simp only: fst_parserFactory) simp
  have js: "fst (parserFactory env config)
              = Inr (Some (new_parser env CypressJSConfigParser config))"
    if "fst (hasConfigFile env (VALID_CONFIG_FILE_NAMES CypressTSConfigParser)
               (config_workingDirectory config)) = Inr False"
       "fst (hasConfigFile env (VALID_CONFIG_FILE_NAMES CypressJSConfigParser)
               (config_workingDirectory config)) = Inr True"
    using that by (simp only: fst_parserFactory) simp
  have json: "fst (parserFactory env config)
              = Inr (Some (new_parser env Cypress9ConfigParser config))"
    if "fst (hasConfigFile env (VALID_CONFIG_FILE_NAMES CypressTSConfigParser)
               (config_workingDirectory config)) = Inr False"
       "fst (hasConfigFile env (VALID_CONFIG_FILE_NAMES CypressJSConfigParser)
               (config_workingDirectory config)) = Inr False"
       "fst (hasConfigFile env (VALID_CONFIG_FILE_NAMES Cypress9ConfigParser)
               (config_workingDirectory config)) = Inr True"
    using that by (simp only: fst_parserFactory) simp
  have names: "VALID_CONFIG_FILE_NAMES CypressTSConfigParser = [''cypress.config.ts'']"
    "VALID_CONFIG_FILE_NAMES CypressJSConfigParser
       = [''cypress.config.js'', ''cypress.config.mjs'', ''cypress.config.cjs'']"
    "VALID_CONFIG_FILE_NAMES Cypress9ConfigParser = [''cypress.json'']"
    by simp_all
  from names ts js json none last show ?thesis by blast
qed

theorem parserFactory_precedence_witness:
  "fst (parserFactory
          (world [(''cypress.config.ts'', File), (''cypress.config.js'', File), (''cypress.json'', File)]
             (Exports no_options) no_json)
          \<lparr>config_workingDirectory = [], countRunners = Finite 0\<rparr>)
     = Inr (Some \<lparr>kind = CypressTSConfigParser, this_workingDirectory = ''/repo''\<rparr>)
   \<and> fst (parserFactory
          (world [(''cypress.config.js'', File), (''cypress.json'', File)] (Exports no_options) no_json)
          \<lparr>config_workingDirectory = [], countRunners = Finite 0\<rparr>)
     = Inr (Some \<lparr>kind = CypressJSConfigParser, this_workingDirectory = ''/repo''\<rparr>)
   \<and> fst (parserFactory
          (world [(''cypress.json'', File)] (Exports no_options) no_json)
          \<lparr>config_workingDirectory = [], countRunners = Finite 0\<rparr>)
     = Inr (Some \<lparr>kind = Cypress9ConfigParser, this_workingDirectory = ''/repo''\<rparr>)
   \<and> fst (parserFactory
          (world [(''a.cy.js'', File)] (Exports no_options) no_json)
          \<lparr>config_workingDirectory = [], countRunners = Finite 0\<rparr>) = Inr None
   \<and> failed (parse (world [(''a.cy.js'', File)] (Exports no_options) no_json)
          \<lparr>config_workingDirectory = [], countRunners = Finite 0\<rparr>)
       = Some ''No supported Cypress config file found.''
   \<and> outputs (parse (world [(''a.cy.js'', File)] (Exports no_options) no_json)
          \<lparr>config_workingDirectory = [], countRunners = Finite 0\<rparr>) = []"
proof -
  let ?c = "\<lparr>config_workingDirectory = [], countRunners = Finite 0\<rparr>"
  let ?wa = "world [(''cypress.config.ts'', File), (''cypress.config.js'', File), (''cypress.json'', File)]
             (Exports no_options) no_json"
  let ?wb = "world [(''cypress.config.js'', File), (''cypress.json'', File)] (Exports no_options) no_json"
  let ?wc = "world [(''cypress.json'', File)] (Exports no_options) no_json"
  let ?wd = "world [(''a.cy.js'', File)] (Exports no_options) no_json"
  have a: "fst (hasConfigFile ?wa (VALID_CONFIG_FILE_NAMES CypressTSConfigParser)
                  (config_workingDirectory ?c)) = Inr True"
    by (simp add: world_eval)
  have b: "fst (hasConfigFile ?wb (VALID_CONFIG_FILE_NAMES CypressTSConfigParser)
                  (config_workingDirectory ?c)) = Inr False"
    "fst (hasConfigFile ?wb (VALID_CONFIG_FILE_NAMES CypressJSConfigParser)
                  (config_workingDirectory ?c)) = Inr True"
    by (simp_all add: world_eval)
  have c: "fst (hasConfigFile ?wc (VALID_CONFIG_FILE_NAMES CypressTSConfigParser)
                  (config_workingDirectory ?c)) = Inr False"
    "fst (hasConfigFile ?wc (VALID_CONFIG_FILE_NAMES CypressJSConfigParser)
                  (config_workingDirectory ?c)) = Inr False"
    "fst (hasConfigFile ?wc (VALID_CONFIG_FILE_NAMES Cypress9ConfigParser)
                  (config_workingDirectory ?c)) = Inr True"
    by (simp_all add: world_eval)
  have d: "fst (hasConfigFile ?wd (VALID_CONFIG_FILE_NAMES CypressTSConfigParser)
                  (config_workingDirectory ?c)) = Inr False"
    "fst (hasConfigFile ?wd (VALID_CONFIG_FILE_NAMES CypressJSConfigParser)
                  (config_workingDirectory ?c)) = Inr False"
    "fst (hasConfigFile ?wd (VALID_CONFIG_FILE_NAMES Cypress9ConfigParser)
                  (config_workingDirectory ?c)) = Inr False"
    by (simp_all add: world_eval)
  have np: "new_parser ?wa CypressTSConfigParser ?c
              = \<lparr>kind = CypressTSConfigParser, this_workingDirectory = ''/repo''\<rparr>"
    "new_parser ?wb CypressJSConfigParser ?c
              = \<lparr>kind = CypressJSConfigParser, this_workingDirectory = ''/repo''\<rparr>"
    "new_parser ?wc Cypress9ConfigParser ?c
              = \<lparr>kind = Cypress9ConfigParser, this_workingDirectory = ''/repo''\<rparr>"
    by (simp_all add: world_eval)
  note pa = parserFactory_precedence [of ?wa ?c]
  note pb = parserFactory_precedence [of ?wb ?c]
  note pc = parserFactory_precedence [of ?wc ?c]
  note pd = parserFactory_precedence [of ?wd ?c]
  have ra: "fst (parserFactory ?wa ?c) = Inr (Some (new_parser ?wa CypressTSConfigParser ?c))"
    by (rule pa [THEN conjunct2, THEN conjunct2, THEN conjunct2, THEN conjunct1, rule_format, OF a])
  have rb: "fst (parserFactory ?wb ?c) = Inr (Some (new_parser ?wb CypressJSConfigParser ?c))"
    by (rule pb [THEN conjunct2, THEN conjunct2, THEN conjunct2, THEN conjunct2, THEN conjunct1,
                 rule_format, OF conjI [OF b]])
  have rc: "fst (parserFactory ?wc ?c) = Inr (Some (new_parser ?wc Cypress9ConfigParser ?c))"
    by (rule pc [THEN conjunct2, THEN conjunct2, THEN conjunct2, THEN conjunct2, THEN conjunct2,
                 THEN conjunct1, rule_format, OF conjI [OF c(1) conjI [OF c(2) c(3)]]])
  have rd: "fst (parserFactory ?wd ?c) = Inr None
            \<and> failed (parse ?wd ?c) = Some ''No supported Cypress config file found.''
            \<and> outputs (parse ?wd ?c) = []"
    by (rule pd [THEN conjunct2, THEN conjunct2, THEN conjunct2, THEN conjunct2, THEN conjunct2,
                 THEN conjunct2, rule_format, OF conjI [OF d(1) conjI [OF d(2) d(3)]]])
  from ra rb rc rd show ?thesis unfolding np by (intro conjI) (erule conjE | assumption)+
qed

text \<open>
  C3: in a run in which a parser was selected, the run fails with exactly the message
  \<^verbatim>\<open>No tests found\<close> and sets no output if and only if the parser found no integration
  test and the component tests are either absent or empty; otherwise no failure is
  signalled and the outputs are set: \<^verbatim>\<open>integration-tests\<close> always, and
  \<^verbatim>\<open>component-tests\<close> when the component tests are present.
\<close>

theorem parse_no_tests_iff:
  assumes "fst (parserFactory env config) = Inr (Some p)"
  shows "let tests = fst (parseTests env p);
             none = (integrationTests tests = []
                     \<and> (componentTests tests = None \<or> componentTests tests = Some []))
         in ((failed (parse env config) = Some ''No tests found''
               \<and> outputs (parse env config) = []) \<longleftrightarrow> none)
          \<and> (\<not> none \<longrightarrow>
               failed (parse env config) = None
             \<and> outputs (parse env config)
                 = (''integration-tests'',
                    createTestGroups (countRunners config) (integrationTests tests))
                   # (case componentTests tests of
                        None \<Rightarrow> []
                      | Some c \<Rightarrow> [(''component-tests'',
                                    createTestGroups (countRunners config) c)]))"
proof -
  obtain l where pf: "parserFactory env config = (Inr (Some p), l)"
    using assms by (cases "parserFactory env config") simp
  obtain tests l' where pt: "parseTests env p = (tests, l')"
    by (cases "parseTests env p")
  show ?thesis
    unfolding Let_def
    by (simp add: parse_def pf pt split: option.split)
qed

theorem parse_no_tests_iff_witness:
  "fst (parserFactory (world [(''cypress.config.js'', File)] (Exports no_options) no_json)
          \<lparr>config_workingDirectory = [], countRunners = Finite 0\<rparr>)
     = Inr (Some \<lparr>kind = CypressJSConfigParser, this_workingDirectory = ''/repo''\<rparr>)
   \<and> fst (parseTests (world [(''cypress.config.js'', File)] (Exports no_options) no_json)
          \<lparr>kind = CypressJSConfigParser, this_workingDirectory = ''/repo''\<rparr>)
     = \<lparr>integrationTests = [], componentTests = Some []\<rparr>
   \<and> failed (parse (world [(''cypress.config.js'', File)] (Exports no_options) no_json)
          \<lparr>config_workingDirectory = [], countRunners = Finite 0\<rparr>) = Some ''No tests found''
   \<and> outputs (parse (world [(''cypress.config.js'', File)] (Exports no_options) no_json)
          \<lparr>config_workingDirectory = [], countRunners = Finite 0\<rparr>) = []
   \<and> failed (parse (world [(''cypress.json'', File), (''a.spec.ts'', File)] (Exports no_options)
                 \<lparr>json_componentFolder = None, json_ignoreTestFiles = Some (Single ''cypress.json''),
                  json_integrationFolder = Some [], json_testFiles = Some (Single ''*'')\<rparr>)
          \<lparr>config_workingDirectory = [], countRunners = Finite 0\<rparr>) = None
   \<and> outputs (parse (world [(''cypress.json'', File), (''a.spec.ts'', File)] (Exports no_options)
                 \<lparr>json_componentFolder = None, json_ignoreTestFiles = Some (Single ''cypress.json''),
                  json_integrationFolder = Some [], json_testFiles = Some (Single ''*'')\<rparr>)
          \<lparr>config_workingDirectory = [], countRunners = Finite 0\<rparr>)
     = [(''integration-tests'', [Some ''a.spec.ts''])]"
proof -
  let ?c = "\<lparr>config_workingDirectory = [], countRunners = Finite 0\<rparr>"
  let ?w = "world [(''cypress.config.js'', File)] (Exports no_options) no_json"
  let ?p = "\<lparr>kind = CypressJSConfigParser, this_workingDirectory = ''/repo''\<rparr>"
  let ?v = "world [(''cypress.json'', File), (''a.spec.ts'', File)] (Exports no_options)
                 \<lparr>json_componentFolder = None, json_ignoreTestFiles = Some (Single ''cypress.json''),
                  json_integrationFolder = Some [], json_testFiles = Some (Single ''*'')\<rparr>"
  let ?q = "\<lparr>kind = Cypress9ConfigParser, this_workingDirectory = ''/repo''\<rparr>"
  have pw: "fst (parserFactory ?w ?c) = Inr (Some ?p)"
    by (simp add: fst_parserFactory world_eval)
  have tw: "fst (parseTests ?w ?p) = \<lparr>integrationTests = [], componentTests = Some []\<rparr>"
    by (simp add: parse_eval world_eval)
  have pv: "fst (parserFactory ?v ?c) = Inr (Some ?q)"
    by (simp add: fst_parserFactory world_eval)
  have tv: "fst (parseTests ?v ?q) = \<lparr>integrationTests = [''a.spec.ts''], componentTests = None\<rparr>"
    by (simp add: parse_eval world_eval)
  have g: "createTestGroups (Finite 0) [''a.spec.ts''] = [Some ''a.spec.ts'']"
    by (simp add: createTestGroups_def)
  from parse_no_tests_iff [OF pw] have
    "failed (parse ?w ?c) = Some ''No tests found'' \<and> outputs (parse ?w ?c) = []"
    unfolding Let_def tw by simp
  moreover from parse_no_tests_iff [OF pv] have
    "failed (parse ?v ?c) = None \<and> outputs (parse ?v ?c) = [(''integration-tests'', [Some ''a.spec.ts''])]"
    unfolding Let_def tv by (simp add: g)
  ultimately show ?thesis using pw tw by (intro conjI) (erule conjE | assumption)+
qed

text \<open>
  C4: for every parser class, when loading the configuration raises an exception \<open>e\<close>
  (the file cannot be read, the JSON is malformed, the transpilation reports diagnostics,
  the script cannot be loaded), \<^verbatim>\<open>parseTests\<close> does not raise: it logs
  \<^verbatim>\<open>Failed to parse cypress tests: e\<close> and returns the value with both lists empty.
  The run then ends with the failure \<^verbatim>\<open>No tests found\<close>.
\<close>

theorem parseTests_catches:
  "(fst (loadConfig9 env wd) = Inl e \<longrightarrow>
      parseTests env \<lparr>kind = Cypress9ConfigParser, this_workingDirectory = wd\<rparr>
        = (\<lparr>integrationTests = [], componentTests = Some []\<rparr>,
           snd (loadConfig9 env wd) @ [''Failed to parse cypress tests: '' @ exn_toString e]))
   \<and> (k \<noteq> Cypress9ConfigParser \<and> fst (loadConfig env k wd) = Inl e \<longrightarrow>
      parseTests env \<lparr>kind = k, this_workingDirectory = wd\<rparr>
        = (\<lparr>integrationTests = [], componentTests = Some []\<rparr>,
           snd (loadConfig env k wd) @ [''Failed to parse cypress tests: '' @ exn_toString e]))
   \<and> (fst (parserFactory env config) = Inr (Some p)
        \<and> fst (parseTests env p) = \<lparr>integrationTests = [], componentTests = Some []\<rparr> \<longrightarrow>
      failed (parse env config) = Some ''No tests found'' \<and> outputs (parse env config) = [])"
proof (intro conjI impI)
  assume "fst (loadConfig9 env wd) = Inl e"
  then show "parseTests env \<lparr>kind = Cypress9ConfigParser, this_workingDirectory = wd\<rparr>
        = (\<lparr>integrationTests = [], componentTests = Some []\<rparr>,
           snd (loadConfig9 env wd) @ [''Failed to parse cypress tests: '' @ exn_toString e])"
    by (cases "loadConfig9 env wd") (simp add: parseTests_def parseTests9_def caught_def)
next
  assume "k \<noteq> Cypress9ConfigParser \<and> fst (loadConfig env k wd) = Inl e"
  then show "parseTests env \<lparr>kind = k, this_workingDirectory = wd\<rparr>
        = (\<lparr>integrationTests = [], componentTests = Some []\<rparr>,
           snd (loadConfig env k wd) @ [''Failed to parse cypress tests: '' @ exn_toString e])"
    by (cases "loadConfig env k wd"; cases k)
       (simp_all add: parseTests_def parseTests10_def caught_def)
next
  assume a: "fst (parserFactory env config) = Inr (Some p)
        \<and> fst (parseTests env p) = \<lparr>integrationTests = [], componentTests = Some []\<rparr>"
  obtain l where pf: "parserFactory env config = (Inr (Some p), l)"
    using a by (cases "parserFactory env config") simp
  obtain l' where pt: "parseTests env p = (\<lparr>integrationTests = [], componentTests = Some []\<rparr>, l')"
    using a by (cases "parseTests env p") simp
  show "failed (parse env config) = Some ''No tests found''"
    by (simp add: parse_def pf pt)
  show "outputs (parse env config) = []"
    by (simp add: parse_def pf pt)
qed

theorem parseTests_catches_witness:
  "fst (loadConfig9
          ((world [(''cypress.json'', File)] (Exports no_options) no_json)
             \<lparr>JSON_parse := \<lambda>t. Inl (Exn ''SyntaxError'' ''Unexpected end of JSON input'')\<rparr>)
          ''/repo'')
     = Inl (Exn ''SyntaxError'' ''Unexpected end of JSON input'')
   \<and> parseTests
         ((world [(''cypress.json'', File)] (Exports no_options) no_json)
            \<lparr>JSON_parse := \<lambda>t. Inl (Exn ''SyntaxError'' ''Unexpected end of JSON input'')\<rparr>)
         \<lparr>kind = Cypress9ConfigParser, this_workingDirectory = ''/repo''\<rparr>
     = (\<lparr>integrationTests = [], componentTests = Some []\<rparr>,
        [''Failed to parse cypress tests: SyntaxError: Unexpected end of JSON input''])
   \<and> fst (parseTests
         ((world [(''cypress.config.ts'', File)] (Exports no_options) no_json)
            \<lparr>ts_transpileModule := \<lambda>t. ([], [''Unterminated string literal.''])\<rparr>)
         \<lparr>kind = CypressTSConfigParser, this_workingDirectory = ''/repo''\<rparr>)
     = \<lparr>integrationTests = [], componentTests = Some []\<rparr>
   \<and> failed (parse
         ((world [(''cypress.config.ts'', File)] (Exports no_options) no_json)
            \<lparr>ts_transpileModule := \<lambda>t. ([], [''Unterminated string literal.''])\<rparr>)
         \<lparr>config_workingDirectory = [], countRunners = Finite 0\<rparr>) = Some ''No tests found''"
proof -
  let ?c = "\<lparr>config_workingDirectory = [], countRunners = Finite 0\<rparr>"
  let ?wj = "(world [(''cypress.json'', File)] (Exports no_options) no_json)
             \<lparr>JSON_parse := \<lambda>t. Inl (Exn ''SyntaxError'' ''Unexpected end of JSON input'')\<rparr>"
  let ?wt = "(world [(''cypress.config.ts'', File)] (Exports no_options) no_json)
            \<lparr>ts_transpileModule := \<lambda>t. ([], [''Unterminated string literal.''])\<rparr>"
  let ?e = "Exn ''SyntaxError'' ''Unexpected end of JSON input''"
  let ?f = "Exn ''Error'' (''Failed to transpile Cypress typescript config at '' @ [CHR 0x22]
              @ ''/repo//repo/cypress.config.ts'' @ [CHR 0x22])"
  let ?p = "\<lparr>kind = CypressTSConfigParser, this_workingDirectory = ''/repo''\<rparr>"
  have lj: "loadConfig9 ?wj ''/repo'' = (Inl ?e, [])"
    by (simp add: parse_eval world_eval)
  have lt: "loadConfig ?wt CypressTSConfigParser ''/repo'' = (Inl ?f, [])"
    by (simp add: parse_eval world_eval)
  have pt: "fst (parserFactory ?wt ?c) = Inr (Some ?p)"
    by (simp add: fst_parserFactory world_eval)
  note cj = parseTests_catches [of ?wj "''/repo''" ?e CypressTSConfigParser ?c ?p]
  note ct = parseTests_catches [of ?wt "''/repo''" ?f CypressTSConfigParser ?c ?p]
  have r1: "parseTests ?wj \<lparr>kind = Cypress9ConfigParser, this_workingDirectory = ''/repo''\<rparr>
     = (\<lparr>integrationTests = [], componentTests = Some []\<rparr>,
        [''Failed to parse cypress tests: SyntaxError: Unexpected end of JSON input''])"
    using cj [THEN conjunct1] by (simp add: lj)
  have r2: "parseTests ?wt ?p = (\<lparr>integrationTests = [], componentTests = Some []\<rparr>,
           snd (loadConfig ?wt CypressTSConfigParser ''/repo'')
           @ [''Failed to parse cypress tests: '' @ exn_toString ?f])"
    using ct [THEN conjunct2, THEN conjunct1] by (simp only: lt fst_conv parser_kind.distinct simp_thms)
  then have r2': "fst (parseTests ?wt ?p) = \<lparr>integrationTests = [], componentTests = Some []\<rparr>"
    by (simp only: fst_conv)
  have r3: "failed (parse ?wt ?c) = Some ''No tests found''"
    using ct [THEN conjunct2, THEN conjunct2, rule_format, OF conjI [OF pt r2']] by (rule conjunct1)
  from lj have l1: "fst (loadConfig9 ?wj ''/repo'') = Inl ?e" by (simp only: fst_conv)
  from l1 r1 r2' r3 show ?thesis by (intro conjI)
qed

lemma fold_filter_set:
  "f \<in> set (fold (\<lambda>p fs. filter (\<lambda>f. P f p) fs) ps files)
     \<longleftrightarrow> f \<in> set files \<and> (\<forall>p \<in> set ps. P f p)"
  by (induction ps arbitrary: files) auto

lemma glob_excluded:
  assumes "glob env rootDir pattern ignorePattern = Inr files" "f \<in> set files"
    "p \<in> set ignorePattern"
  shows "minimatch env f (CHR ''!'' # p)"
proof (cases "node_at env rootDir")
  case None
  with assms(1,2) show ?thesis by (simp add: glob_def)
next
  case (Some n)
  with assms(1) obtain listed where
    "files = fold (\<lambda>p fs. filter (\<lambda>f. minimatch env f (CHR ''!'' # p)) fs) ignorePattern
               (filter (\<lambda>f. list_ex (\<lambda>p. minimatch env f p) pattern) listed)"
    by (auto simp: glob_def split: sum.splits)
  with assms(2,3) show ?thesis
    using fold_filter_set [of f "\<lambda>f p. minimatch env f (CHR ''!'' # p)" ignorePattern]
    by blast
qed

lemma resolveConfig_component_exclude:
  "set (specPattern (e2e (resolveConfig rawConfig)))
     \<subseteq> set (excludeSpecPattern (component (resolveConfig rawConfig)))"
  "set DEFAULT_EXCLUDE_SPEC_PATTERNS
     \<subseteq> set (excludeSpecPattern (component (resolveConfig rawConfig)))"
  by (auto simp: resolveConfig_def Let_def split: option.splits module_exports.splits)

lemma resolveConfig_snapshots:
  "(case opt_component (case rawConfig of DefaultExport c \<Rightarrow> c | Exports c \<Rightarrow> c) of
      None \<Rightarrow> True | Some s \<Rightarrow> opt_excludeSpecPattern s = None)
   \<Longrightarrow> {''/snapshots/*'', ''/image_snapshots/*''}
        \<subseteq> set (excludeSpecPattern (component (resolveConfig rawConfig)))"
  by (auto simp: resolveConfig_def Let_def split: option.splits module_exports.splits)

lemma loadConfig_resolved:
  assumes "fst (loadConfig env k wd) = Inr loaded"
  shows "\<exists>rawConfig. loaded = resolveConfig rawConfig"
  using assms
  by (auto simp: loadConfig_def and_then_def processConfig_def
           split: prod.splits sum.splits option.splits if_splits parser_kind.splits)

lemma parseTests10_component:
  assumes "fst (loadConfig env k wd) = Inr loaded"
    "componentTests (fst (parseTests10 env k wd)) = Some found" "t \<in> set found"
  shows "\<exists>files f. glob env (path_join env wd []) (specPattern (component loaded))
                      (excludeSpecPattern (component loaded)) = Inr files
                  \<and> f \<in> set files \<and> t = path_join env [] f"
proof -
  obtain l where l: "loadConfig env k wd = (Inr loaded, l)"
    using assms(1) by (cases "loadConfig env k wd") simp
  show ?thesis
    using assms(2,3)
    by (auto simp: parseTests10_def l parseTestOfType_def globRule_def caught_def
             split: sum.splits)
qed

lemma parseTests10_has_component:
  "\<exists>c. componentTests (fst (parseTests10 env k wd)) = Some c"
  by (cases "loadConfig env k wd")
     (auto simp: parseTests10_def caught_def split: sum.splits)

lemma parseTests9_no_component:
  assumes "fst (loadConfig9 env wd) = Inr loaded" "componentFolder loaded = None"
  shows "componentTests (fst (parseTests9 env wd)) = None
         \<or> fst (parseTests9 env wd) = \<lparr>integrationTests = [], componentTests = Some []\<rparr>"
proof -
  obtain l where l: "loadConfig9 env wd = (Inr loaded, l)"
    using assms(1) by (cases "loadConfig9 env wd") simp
  show ?thesis
    by (simp add: parseTests9_def l assms(2) caught_def split: sum.splits)
qed

lemma rule_eq_parseTestOfType:
  "parseTestOfType env wd (integrationFolder c) (testFiles c) (ignoreTestFiles c)
     = globRule env wd (integrationRule9 c)"
  "componentRule9 c = Some rule \<Longrightarrow> componentFolder c = Some folder \<Longrightarrow>
     parseTestOfType env wd folder (testFiles c) (ignoreTestFiles c) = globRule env wd rule"
  "parseTestOfType env wd [] (Several (specPattern (e2e m)))
       (Some (Several (excludeSpecPattern (e2e m)))) = globRule env wd (e2eRule m)"
  "parseTestOfType env wd [] (Several (specPattern (component m)))
       (Some (Several (excludeSpecPattern (component m)))) = globRule env wd (componentRule m)"
  by (auto simp: parseTestOfType_def integrationRule9_def componentRule9_def e2eRule_def
        componentRule_def split: if_splits)

lemma as_list_empty [simp]: "as_list p = [] \<longleftrightarrow> p = Several []"
  by (cases p) simp_all

text \<open>
  C5: in the modern schema the resolved exclude patterns of the component category always
  contain the resolved include patterns of the e2e category and the pattern
  \<^verbatim>\<open>**/node_modules/**\<close>, and the two snapshot patterns too when the configuration
  gives no exclude pattern for the component category. Consequently no component test that
  \<^verbatim>\<open>parseTests\<close> returns comes from a file that an e2e include pattern matches, provided
  \<^verbatim>\<open>minimatch\<close> never accepts a file both for an e2e include pattern \<open>p\<close> and for its
  negation \<open>!p\<close>.
\<close>

theorem component_excludes_e2e:
  "(let config = resolveConfig rawConfig;
        options = (case rawConfig of DefaultExport c \<Rightarrow> c | Exports c \<Rightarrow> c)
    in set (specPattern (e2e config)) \<subseteq> set (excludeSpecPattern (component config))
     \<and> set DEFAULT_EXCLUDE_SPEC_PATTERNS \<subseteq> set (excludeSpecPattern (component config))
     \<and> ((case opt_component options of None \<Rightarrow> True
          | Some s \<Rightarrow> opt_excludeSpecPattern s = None)
        \<longrightarrow> {''/snapshots/*'', ''/image_snapshots/*''}
              \<subseteq> set (excludeSpecPattern (component config))))
   \<and> (fst (loadConfig env k wd) = Inr loaded
      \<and> (\<forall>p \<in> set (specPattern (e2e loaded)). \<forall>f.
            minimatch env f p \<longrightarrow> \<not> minimatch env f (CHR ''!'' # p))
      \<and> componentTests (fst (parseTests10 env k wd)) = Some found
      \<longrightarrow> (\<forall>t \<in> set found. \<exists>f. t = path_join env [] f
              \<and> (\<forall>p \<in> set (specPattern (e2e loaded)). \<not> minimatch env f p)))"
proof (intro conjI impI)
  show "let config = resolveConfig rawConfig;
        options = (case rawConfig of DefaultExport c \<Rightarrow> c | Exports c \<Rightarrow> c)
    in set (specPattern (e2e config)) \<subseteq> set (excludeSpecPattern (component config))
     \<and> set DEFAULT_EXCLUDE_SPEC_PATTERNS \<subseteq> set (excludeSpecPattern (component config))
     \<and> ((case opt_component options of None \<Rightarrow> True
          | Some s \<Rightarrow> opt_excludeSpecPattern s = None)
        \<longrightarrow> {''/snapshots/*'', ''/image_snapshots/*''}
              \<subseteq> set (excludeSpecPattern (component config)))"
    unfolding Let_def
    using resolveConfig_component_exclude [of rawConfig] resolveConfig_snapshots [of rawConfig]
    by blast
next
  assume a: "fst (loadConfig env k wd) = Inr loaded
      \<and> (\<forall>p \<in> set (specPattern (e2e loaded)). \<forall>f.
            minimatch env f p \<longrightarrow> \<not> minimatch env f (CHR ''!'' # p))
      \<and> componentTests (fst (parseTests10 env k wd)) = Some found"
  then obtain rawConfig' where r: "loaded = resolveConfig rawConfig'"
    using loadConfig_resolved by blast
  have sub: "set (specPattern (e2e loaded)) \<subseteq> set (excludeSpecPattern (component loaded))"
    unfolding r by (rule resolveConfig_component_exclude)
  show "\<forall>t \<in> set found. \<exists>f. t = path_join env [] f
              \<and> (\<forall>p \<in> set (specPattern (e2e loaded)). \<not> minimatch env f p)"
  proof
    fix t assume "t \<in> set found"
    with a obtain files f where
      g: "glob env (path_join env wd []) (specPattern (component loaded))
            (excludeSpecPattern (component loaded)) = Inr files"
      and f: "f \<in> set files" "t = path_join env [] f"
      using parseTests10_component by blast
    have "\<not> minimatch env f p" if p: "p \<in> set (specPattern (e2e loaded))" for p
    proof -
      from p sub have "p \<in> set (excludeSpecPattern (component loaded))" by blast
      with g f(1) have "minimatch env f (CHR ''!'' # p)" by (rule glob_excluded)
      with a p show ?thesis by blast
    qed
    with f(2) show "\<exists>f. t = path_join env [] f
              \<and> (\<forall>p \<in> set (specPattern (e2e loaded)). \<not> minimatch env f p)"
      by blast
  qed
qed

theorem component_excludes_e2e_witness:
  "excludeSpecPattern (component (resolveConfig
       (Exports \<lparr>opt_e2e = Some \<lparr>opt_specPattern = Some (Single ''a.cy.js''),
                                  opt_excludeSpecPattern = None\<rparr>,
                 opt_component = Some \<lparr>opt_specPattern = Some (Single ''*''),
                                        opt_excludeSpecPattern = None\<rparr>\<rparr>)))
     = [''**/node_modules/**'', ''a.cy.js'', ''/snapshots/*'', ''/image_snapshots/*'']
   \<and> fst (parseTests10
          (world [(''cypress.config.js'', File), (''a.cy.js'', File), (''b.cy.js'', File)]
             (Exports \<lparr>opt_e2e = Some \<lparr>opt_specPattern = Some (Single ''a.cy.js''),
                                        opt_excludeSpecPattern = None\<rparr>,
                       opt_component = Some \<lparr>opt_specPattern = Some (Single ''*''),
                                              opt_excludeSpecPattern = None\<rparr>\<rparr>)
             no_json)
          CypressJSConfigParser ''/repo'')
     = \<lparr>integrationTests = [''a.cy.js''],
        componentTests = Some [''cypress.config.js'', ''b.cy.js'']\<rparr>
   \<and> ''a.cy.js'' \<notin> set [''cypress.config.js'', ''b.cy.js'']"
proof -
  let ?x = "Exports \<lparr>opt_e2e = Some \<lparr>opt_specPattern = Some (Single ''a.cy.js''),
                                        opt_excludeSpecPattern = None\<rparr>,
                       opt_component = Some \<lparr>opt_specPattern = Some (Single ''*''),
                                              opt_excludeSpecPattern = None\<rparr>\<rparr>"
  let ?w = "world [(''cypress.config.js'', File), (''a.cy.js'', File), (''b.cy.js'', File)] ?x no_json"
  let ?found = "[''cypress.config.js'', ''b.cy.js'']"
  have r: "resolveConfig ?x
    = \<lparr>e2e = \<lparr>specPattern = [''a.cy.js''],
               excludeSpecPattern = [''**/node_modules/**'', ''*.hot-update.js'']\<rparr>,
       component = \<lparr>specPattern = [''*''],
               excludeSpecPattern = [''**/node_modules/**'', ''a.cy.js'', ''/snapshots/*'',
                                     ''/image_snapshots/*'']\<rparr>\<rparr>"
    by (simp add: resolveConfig_def DEFAULT_EXCLUDE_SPEC_PATTERNS_def)
  have l: "fst (loadConfig ?w CypressJSConfigParser ''/repo'') = Inr (resolveConfig ?x)"
    by (simp add: loadConfig_def processConfig_def world_eval)
  have t: "fst (parseTests10 ?w CypressJSConfigParser ''/repo'')
     = \<lparr>integrationTests = [''a.cy.js''], componentTests = Some ?found\<rparr>"
    by (simp add: parse_eval world_eval)
  have law: "\<forall>p \<in> set (specPattern (e2e (resolveConfig ?x))). \<forall>f.
            minimatch ?w f p \<longrightarrow> \<not> minimatch ?w f (CHR ''!'' # p)"
    by simp
  have c: "componentTests (fst (parseTests10 ?w CypressJSConfigParser ''/repo'')) = Some ?found"
    by (simp only: t TestFiles.simps)
  note th = component_excludes_e2e [of ?x ?w CypressJSConfigParser "''/repo''" "resolveConfig ?x" ?found]
  have "\<forall>t \<in> set ?found. \<exists>f. t = path_join ?w [] f
              \<and> (\<forall>p \<in> set (specPattern (e2e (resolveConfig ?x))). \<not> minimatch ?w f p)"
    by (rule th [THEN conjunct2, THEN mp, OF conjI [OF l conjI [OF law c]]])
  then have "''a.cy.js'' \<notin> set ?found"
    by (auto simp: r simple_join_def)
  with r t show ?thesis by simp
qed

text \<open>
  C6: in a run that selected the legacy parser, loaded a configuration without
  \<^verbatim>\<open>componentFolder\<close> and did not fail, the output \<^verbatim>\<open>component-tests\<close> is not set at
  all; in a run that selected one of the two modern parsers and did not fail, the output
  \<^verbatim>\<open>component-tests\<close> is set. In both, \<^verbatim>\<open>integration-tests\<close> is set.
\<close>

theorem component_output_presence:
  "(fst (parserFactory env config) = Inr (Some p) \<and> kind p = Cypress9ConfigParser
      \<and> fst (loadConfig9 env (this_workingDirectory p)) = Inr loaded
      \<and> componentFolder loaded = None
      \<and> failed (parse env config) = None
    \<longrightarrow> ''component-tests'' \<notin> fst ` set (outputs (parse env config))
      \<and> ''integration-tests'' \<in> fst ` set (outputs (parse env config)))
   \<and> (fst (parserFactory env config) = Inr (Some p) \<and> kind p \<noteq> Cypress9ConfigParser
      \<and> failed (parse env config) = None
    \<longrightarrow> ''component-tests'' \<in> fst ` set (outputs (parse env config))
      \<and> ''integration-tests'' \<in> fst ` set (outputs (parse env config)))"
proof (intro conjI impI)
  assume a: "fst (parserFactory env config) = Inr (Some p) \<and> kind p = Cypress9ConfigParser
      \<and> fst (loadConfig9 env (this_workingDirectory p)) = Inr loaded
      \<and> componentFolder loaded = None
      \<and> failed (parse env config) = None"
  obtain l where pf: "parserFactory env config = (Inr (Some p), l)"
    using a by (cases "parserFactory env config") simp
  obtain tests l' where pt: "parseTests9 env (this_workingDirectory p) = (tests, l')"
    by (cases "parseTests9 env (this_workingDirectory p)")
  have k: "parseTests env p = (tests, l')" using a pt by (simp add: parseTests_def)
  from a have "componentTests tests = None
         \<or> tests = \<lparr>integrationTests = [], componentTests = Some []\<rparr>"
    using parseTests9_no_component [of env "this_workingDirectory p" loaded] pt by simp
  moreover have "tests \<noteq> \<lparr>integrationTests = [], componentTests = Some []\<rparr>"
    using a by (auto simp: parse_def pf k)
  ultimately have none: "componentTests tests = None" by simp
  show "''component-tests'' \<notin> fst ` set (outputs (parse env config))"
    using a none by (auto simp: parse_def pf k split: if_splits)
  show "''integration-tests'' \<in> fst ` set (outputs (parse env config))"
    using a none by (auto simp: parse_def pf k split: if_splits)
next
  assume a: "fst (parserFactory env config) = Inr (Some p) \<and> kind p \<noteq> Cypress9ConfigParser
      \<and> failed (parse env config) = None"
  obtain l where pf: "parserFactory env config = (Inr (Some p), l)"
    using a by (cases "parserFactory env config") simp
  obtain tests l' where pt: "parseTests10 env (kind p) (this_workingDirectory p) = (tests, l')"
    by (cases "parseTests10 env (kind p) (this_workingDirectory p)")
  have k: "parseTests env p = (tests, l')"
    using a pt by (cases "kind p") (simp_all add: parseTests_def)
  obtain c where c: "componentTests tests = Some c"
    using parseTests10_has_component [of env "kind p" "this_workingDirectory p"] pt by auto
  show "''component-tests'' \<in> fst ` set (outputs (parse env config))"
    using a c by (auto simp: parse_def pf k split: if_splits)
  show "''integration-tests'' \<in> fst ` set (outputs (parse env config))"
    using a c by (auto simp: parse_def pf k split: if_splits)
qed

theorem component_output_presence_witness:
  "failed (parse (world [(''cypress.json'', File), (''a.spec.ts'', File)] (Exports no_options)
                 \<lparr>json_componentFolder = None, json_ignoreTestFiles = Some (Single ''cypress.json''),
                  json_integrationFolder = Some [], json_testFiles = Some (Single ''*'')\<rparr>)
          \<lparr>config_workingDirectory = [], countRunners = Finite 0\<rparr>) = None
   \<and> ''component-tests'' \<notin> fst ` set (outputs
         (parse (world [(''cypress.json'', File), (''a.spec.ts'', File)] (Exports no_options)
                 \<lparr>json_componentFolder = None, json_ignoreTestFiles = Some (Single ''cypress.json''),
                  json_integrationFolder = Some [], json_testFiles = Some (Single ''*'')\<rparr>)
          \<lparr>config_workingDirectory = [], countRunners = Finite 0\<rparr>))
   \<and> failed (parse (world [(''cypress.config.js'', File), (''a.cy.js'', File)]
                 (Exports \<lparr>opt_e2e = Some \<lparr>opt_specPattern = Some (Single ''a.cy.js''),
                                            opt_excludeSpecPattern = None\<rparr>,
                           opt_component = None\<rparr>) no_json)
          \<lparr>config_workingDirectory = [], countRunners = Finite 0\<rparr>) = None
   \<and> ''component-tests'' \<in> fst ` set (outputs
         (parse (world [(''cypress.config.js'', File), (''a.cy.js'', File)]
                 (Exports \<lparr>opt_e2e = Some \<lparr>opt_specPattern = Some (Single ''a.cy.js''),
                                            opt_excludeSpecPattern = None\<rparr>,
                           opt_component = None\<rparr>) no_json)
          \<lparr>config_workingDirectory = [], countRunners = Finite 0\<rparr>))"
proof -
  let ?c = "\<lparr>config_workingDirectory = [], countRunners = Finite 0\<rparr>"
  let ?j = "\<lparr>json_componentFolder = None, json_ignoreTestFiles = Some (Single ''cypress.json''),
                  json_integrationFolder = Some [], json_testFiles = Some (Single ''*'')\<rparr>"
  let ?v = "world [(''cypress.json'', File), (''a.spec.ts'', File)] (Exports no_options) ?j"
  let ?q = "\<lparr>kind = Cypress9ConfigParser, this_workingDirectory = ''/repo''\<rparr>"
  let ?m = "world [(''cypress.config.js'', File), (''a.cy.js'', File)]
                 (Exports \<lparr>opt_e2e = Some \<lparr>opt_specPattern = Some (Single ''a.cy.js''),
                                            opt_excludeSpecPattern = None\<rparr>,
                           opt_component = None\<rparr>) no_json"
  let ?p = "\<lparr>kind = CypressJSConfigParser, this_workingDirectory = ''/repo''\<rparr>"
  have pv: "fst (parserFactory ?v ?c) = Inr (Some ?q)"
    by (simp add: fst_parserFactory world_eval)
  have kv: "kind ?q = Cypress9ConfigParser" by simp
  have lv: "fst (loadConfig9 ?v (this_workingDirectory ?q)) = Inr (withDefaults ?j)"
    by (simp add: loadConfig9_def world_eval)
  have cv: "componentFolder (withDefaults ?j) = None"
    by (simp add: withDefaults_def)
  have fv: "failed (parse ?v ?c) = None"
    by (simp add: parse_def parserFactory_def parse_eval world_eval)
  have pm: "fst (parserFactory ?m ?c) = Inr (Some ?p)"
    by (simp add: fst_parserFactory world_eval)
  have km: "kind ?p \<noteq> Cypress9ConfigParser" by simp
  have fm: "failed (parse ?m ?c) = None"
    by (simp add: parse_def parserFactory_def parse_eval world_eval)
  note tv = component_output_presence [of ?v ?c ?q "withDefaults ?j"]
  note tm = component_output_presence [of ?m ?c ?p "withDefaults ?j"]
  have rv: "''component-tests'' \<notin> fst ` set (outputs (parse ?v ?c))"
    by (rule tv [THEN conjunct1, THEN mp,
                 OF conjI [OF pv conjI [OF kv conjI [OF lv conjI [OF cv fv]]]], THEN conjunct1])
  have rm: "''component-tests'' \<in> fst ` set (outputs (parse ?m ?c))"
    by (rule tm [THEN conjunct2, THEN mp, OF conjI [OF pm conjI [OF km fm]], THEN conjunct1])
  from fv rv fm rm show ?thesis by (intro conjI)
qed

text \<open>
  C9, as stated, fails: no parser checks the patterns it is given. The modern configuration
  \<^verbatim>\<open>{e2e: {specPattern: []}, component: {specPattern: "b.cy.js"}}\<close> is loaded without
  complaint, the run succeeds, and the search specification of the e2e category has no
  include pattern; likewise \<^verbatim>\<open>{"testFiles": []}\<close> in the legacy schema.
\<close>

theorem empty_include_patterns_accepted:
  "includePatterns (e2eRule (resolveConfig
      (Exports \<lparr>opt_e2e = Some \<lparr>opt_specPattern = Some (Several []),
                                 opt_excludeSpecPattern = None\<rparr>,
                opt_component = Some \<lparr>opt_specPattern = Some (Single ''b.cy.js''),
                                       opt_excludeSpecPattern = None\<rparr>\<rparr>))) = []
   \<and> parse (world [(''cypress.config.js'', File), (''b.cy.js'', File)]
        (Exports \<lparr>opt_e2e = Some \<lparr>opt_specPattern = Some (Several []),
                                   opt_excludeSpecPattern = None\<rparr>,
                  opt_component = Some \<lparr>opt_specPattern = Some (Single ''b.cy.js''),
                                         opt_excludeSpecPattern = None\<rparr>\<rparr>) no_json)
        \<lparr>config_workingDirectory = [], countRunners = Finite 0\<rparr>
     = \<lparr>failed = None,
        outputs = [(''integration-tests'', []), (''component-tests'', [Some ''b.cy.js''])],
        errors = []\<rparr>
   \<and> includePatterns (integrationRule9 (withDefaults
        \<lparr>json_componentFolder = None, json_ignoreTestFiles = None,
         json_integrationFolder = None, json_testFiles = Some (Several [])\<rparr>)) = []"
proof -
  have "createTestGroups (Finite 0) [] = []" "createTestGroups (Finite 0) [''b.cy.js''] = [Some ''b.cy.js'']"
    by (simp_all add: createTestGroups_def)
  then show ?thesis
    by (simp add: parse_def parserFactory_def parse_eval world_eval e2eRule_def
          integrationRule9_def)
qed

text \<open>
  C9, amended: after the defaults are resolved, the include patterns of a search
  specification are empty exactly when the configuration itself gives the empty list for
  them (\<^verbatim>\<open>testFiles\<close> in the legacy schema, \<^verbatim>\<open>specPattern\<close> of the category in the
  modern one); they are non-empty whenever the patterns are left out or given as a single
  string or a non-empty list. The exclude patterns may be empty: in the legacy schema they
  are when \<^verbatim>\<open>ignoreTestFiles\<close> is left out.
\<close>

theorem includePatterns_nonempty:
  "(let config = withDefaults json in
      (includePatterns (integrationRule9 config) = [] \<longleftrightarrow> json_testFiles json = Some (Several []))
    \<and> (\<forall>rule. componentRule9 config = Some rule \<longrightarrow>
          (includePatterns rule = [] \<longleftrightarrow> json_testFiles json = Some (Several [])))
    \<and> (json_ignoreTestFiles json = None \<longrightarrow> excludePatterns (integrationRule9 config) = []))
   \<and> (let config = resolveConfig rawConfig;
          options = (case rawConfig of DefaultExport c \<Rightarrow> c | Exports c \<Rightarrow> c)
      in (includePatterns (e2eRule config) = [] \<longleftrightarrow>
            (\<exists>s. opt_e2e options = Some s \<and> opt_specPattern s = Some (Several [])))
       \<and> (includePatterns (componentRule config) = [] \<longleftrightarrow>
            (\<exists>s. opt_component options = Some s \<and> opt_specPattern s = Some (Several []))))"
proof (intro conjI)
  show "let config = withDefaults json in
      (includePatterns (integrationRule9 config) = [] \<longleftrightarrow> json_testFiles json = Some (Several []))
    \<and> (\<forall>rule. componentRule9 config = Some rule \<longrightarrow>
          (includePatterns rule = [] \<longleftrightarrow> json_testFiles json = Some (Several [])))
    \<and> (json_ignoreTestFiles json = None \<longrightarrow> excludePatterns (integrationRule9 config) = [])"
    by (auto simp: Let_def withDefaults_def integrationRule9_def componentRule9_def
          DEFAULT_TEST_FILES_def split: option.splits SpecPattern.splits if_splits)
  show "let config = resolveConfig rawConfig;
          options = (case rawConfig of DefaultExport c \<Rightarrow> c | Exports c \<Rightarrow> c)
      in (includePatterns (e2eRule config) = [] \<longleftrightarrow>
            (\<exists>s. opt_e2e options = Some s \<and> opt_specPattern s = Some (Several [])))
       \<and> (includePatterns (componentRule config) = [] \<longleftrightarrow>
            (\<exists>s. opt_component options = Some s \<and> opt_specPattern s = Some (Several [])))"
    by (cases rawConfig)
       (auto simp: Let_def resolveConfig_def e2eRule_def componentRule_def
          split: option.splits SpecPattern.splits)
qed

theorem includePatterns_nonempty_witness:
  "includePatterns (integrationRule9 (withDefaults no_json)) = [''**/*.*'']
   \<and> excludePatterns (integrationRule9 (withDefaults no_json)) = []
   \<and> componentRule9 (withDefaults (no_json\<lparr>json_componentFolder := Some ''src''\<rparr>))
       = Some \<lparr>rootFolder = ''src'', includePatterns = [''**/*.*''], excludePatterns = []\<rparr>
   \<and> includePatterns (e2eRule (resolveConfig (Exports no_options))) \<noteq> []
   \<and> includePatterns (componentRule (resolveConfig (Exports no_options))) \<noteq> []"
proof -
  let ?j = "no_json\<lparr>json_componentFolder := Some ''src''\<rparr>"
  have a: "json_testFiles no_json \<noteq> Some (Several [])" "json_ignoreTestFiles no_json = None"
    by (simp_all add: no_json_def)
  have b: "\<not> (\<exists>s. opt_e2e (case Exports no_options of DefaultExport c \<Rightarrow> c | Exports c \<Rightarrow> c) = Some s
                 \<and> opt_specPattern s = Some (Several []))"
    "\<not> (\<exists>s. opt_component (case Exports no_options of DefaultExport c \<Rightarrow> c | Exports c \<Rightarrow> c) = Some s
                 \<and> opt_specPattern s = Some (Several []))"
    by (simp_all add: no_options_def)
  note th = includePatterns_nonempty [of no_json "Exports no_options", unfolded Let_def]
  have r1: "includePatterns (integrationRule9 (withDefaults no_json)) \<noteq> []"
    using th [THEN conjunct1, THEN conjunct1] a(1) by blast
  have r2: "excludePatterns (integrationRule9 (withDefaults no_json)) = []"
    using th [THEN conjunct1, THEN conjunct2, THEN conjunct2] a(2) by blast
  have r3: "includePatterns (e2eRule (resolveConfig (Exports no_options))) \<noteq> []"
    using th [THEN conjunct2, THEN conjunct1] b(1) by blast
  have r4: "includePatterns (componentRule (resolveConfig (Exports no_options))) \<noteq> []"
    using th [THEN conjunct2, THEN conjunct2] b(2) by blast
  have v1: "includePatterns (integrationRule9 (withDefaults no_json)) = [''**/*.*'']"
    by (simp add: integrationRule9_def withDefaults_def no_json_def DEFAULT_TEST_FILES_def)
  have v2: "componentRule9 (withDefaults ?j)
       = Some \<lparr>rootFolder = ''src'', includePatterns = [''**/*.*''], excludePatterns = []\<rparr>"
    by (simp add: componentRule9_def withDefaults_def no_json_def DEFAULT_TEST_FILES_def
          discoveryRule_def)
  from v1 r1 r2 v2 r3 r4 show ?thesis by (intro conjI)
qed

end
